theory Spec2Isabelle
  imports Complex_Main
begin

section \<open>Values, exceptions and outcomes\<close>

text \<open>
  The objects that travel over a pipe are opaque, caller-defined Python values. The
  relay only ever asks three things of a message: whether it is \<^verbatim>\<open>None\<close>, whether it
  is a tuple of length two, and whether it (or its first component) equals one of the
  \<^verbatim>\<open>Event\<close> constants of \<^verbatim>\<open>CommTask\<close>.
\<close>

datatype pyval =
    PNone
  | PInt int
  | PStr string
  | PTuple "pyval list"
  | PEvent string

text \<open>
  Modelled from the spec: the class \<^verbatim>\<open>Event\<close> of \<^verbatim>\<open>byop.events\<close>. An event is an
  immutable identifier compared by its name, so an event that has crossed a pipe is
  still equal to the constant it was made from.
\<close>

definition MESSAGE :: pyval where
  "MESSAGE = PEvent ''commtask-message''"

definition REQUEST :: pyval where
  "REQUEST = PEvent ''commtask-request''"

definition CLOSE :: pyval where
  "CLOSE = PEvent ''commtask-close''"

text \<open>
  The exception classes that occur, all of them subclasses of \<^verbatim>\<open>Exception\<close>.
  \<^verbatim>\<open>BrokenPipeError\<close>, \<^verbatim>\<open>ConnectionResetError\<close> and the builtin
  \<^verbatim>\<open>TimeoutError\<close> are subclasses of \<^verbatim>\<open>OSError\<close>; \<^verbatim>\<open>EOFError\<close>,
  \<^verbatim>\<open>OverflowError\<close>, \<^verbatim>\<open>ValueError\<close> and \<^verbatim>\<open>KeyError\<close> are not.
  \<^verbatim>\<open>asyncio.wait_for\<close> raises \<^verbatim>\<open>asyncio.TimeoutError\<close>, which is the builtin
  \<^verbatim>\<open>TimeoutError\<close> from Python 3.11 on. \<^verbatim>\<open>RuntimeError\<close> stands for any
  other subclass of \<^verbatim>\<open>Exception\<close> that is not an \<^verbatim>\<open>OSError\<close>.
\<close>

datatype exn =
    OSError
  | BrokenPipeError
  | ConnectionResetError
  | TimeoutError
  | EOFError
  | OverflowError
  | ValueError
  | KeyError
  | RuntimeError

text \<open>\<^verbatim>\<open>isinstance(e, OSError)\<close>, the test behind \<^verbatim>\<open>except OSError\<close>.\<close>

fun is_OSError :: "exn \<Rightarrow> bool" where
  "is_OSError OSError = True"
| "is_OSError BrokenPipeError = True"
| "is_OSError ConnectionResetError = True"
| "is_OSError TimeoutError = True"
| "is_OSError EOFError = False"
| "is_OSError OverflowError = False"
| "is_OSError ValueError = False"
| "is_OSError KeyError = False"
| "is_OSError RuntimeError = False"

text \<open>
  A Python \<^verbatim>\<open>float\<close>: a finite number, one of the two infinities, or not a number.
  Timeouts are floats.
\<close>

datatype pynum = Finite real | PosInf | NegInf | NaN

text \<open>
  A call returns a value, raises, or never comes back because it waits for input that
  is not going to arrive.
\<close>

datatype 'a res = Returns 'a | Raises exn | Blocks

section \<open>The transport: \<^verbatim>\<open>multiprocessing.connection.Connection\<close>\<close>

text \<open>
  A connection is one end of a duplex pipe (\<^verbatim>\<open>Pipe(duplex=True)\<close>, the only kind
  \<^verbatim>\<open>CommTask\<close> creates). Connections live in a store indexed by handle;
  \<open>peer\<close> is the handle of the other end. \<open>incoming\<close> holds, in pipe order, the
  objects written by the other end and not yet read here, each with the time at which
  it becomes readable. \<open>reset_pending\<close> says that the other end was closed while
  objects written from here were still unread there: the operating system then reports
  a connection reset, once, to the first read here that finds nothing queued.
  \<open>os_error\<close> says which exception, if any, the operating system reports for each
  kind of primitive on this handle; it makes every other transport fault expressible,
  beyond those that follow from the state of the pipe (a write to a pipe whose other
  end is closed, a read at end of file, a read after a reset).
\<close>

datatype io = IoSend | IoRecv | IoPoll | IoClose

record conn =
  closed :: bool
  peer :: nat
  incoming :: "(real \<times> pyval) list"
  reset_pending :: bool
  os_error :: "io \<Rightarrow> exn option"

text \<open>The calls made on connections, in the order they are made.\<close>

datatype op =
    OSend nat pyval
  | ORecv nat
  | OPoll nat "pynum option"
  | OClose nat

text \<open>The records written to the module's logger.\<close>

datatype level = DEBUG | WARNING | ERROR

datatype log_msg =
    BrokenPipeWhileSending pyval
  | ErrorSendingClose exn
  | WaitingForAck
  | ReceivedAck
  | ErrorWaitingForAck exn
  | ErrorClosingConnection exn
  | RelayReceived pyval
  | RelayClosedConnection
  | RelayFinished
  | RelayClosedComms

record world =
  conns :: "nat \<Rightarrow> conn"
  next_conn :: nat
  now :: real
  ops :: "op list"
  logs :: "(level \<times> log_msg) list"

definition called :: "op \<Rightarrow> world \<Rightarrow> world" where
  "called x w = w\<lparr>ops := ops w @ [x]\<rparr>"

definition logger :: "level \<Rightarrow> log_msg \<Rightarrow> world \<Rightarrow> world" where
  "logger l m w = w\<lparr>logs := logs w @ [(l, m)]\<rparr>"

definition upd_conn :: "nat \<Rightarrow> (conn \<Rightarrow> conn) \<Rightarrow> world \<Rightarrow> world" where
  "upd_conn k f w = w\<lparr>conns := (conns w)(k := f (conns w k))\<rparr>"

text \<open>
  \<^verbatim>\<open>Connection.send(obj)\<close>: \<^verbatim>\<open>OSError\<close> on a closed handle; \<^verbatim>\<open>BrokenPipeError\<close>
  when the other end is closed (also when a reset is pending, which is left for the
  next read); otherwise the object is queued at the other end. The buffer of the pipe
  is taken to have room for the object, so the write completes at once: the model
  describes the runs in which a send does not have to wait. A real write waits while
  the buffer is full, until the other end has read. What is stated below about the
  time \<^verbatim>\<open>Comm.request\<close> takes is therefore counted from the return of its send,
  and what is stated about the log of \<^verbatim>\<open>Comm.close\<close> is stated for a close that
  has returned.
\<close>

definition conn_send :: "nat \<Rightarrow> pyval \<Rightarrow> world \<Rightarrow> unit res \<times> world" where
  "conn_send k obj w =
     (let c = conns w k; w1 = called (OSend k obj) w in
      if closed c then (Raises OSError, w1)
      else case os_error c IoSend of
        Some e \<Rightarrow> (Raises e, w1)
      | None \<Rightarrow>
          if closed (conns w (peer c)) then (Raises BrokenPipeError, w1)
          else (Returns (),
                upd_conn (peer c) (\<lambda>p. p\<lparr>incoming := incoming p @ [(now w, obj)]\<rparr>) w1))"

text \<open>
  \<^verbatim>\<open>Connection.recv()\<close>: \<^verbatim>\<open>OSError\<close> on a closed handle; the next object once it has
  arrived; when nothing is left and the other end is closed, \<^verbatim>\<open>ConnectionResetError\<close>
  if a reset is pending (it is reported once) and \<^verbatim>\<open>EOFError\<close> otherwise; and when
  nothing is left and the other end is open the call waits for ever.
\<close>

definition conn_recv :: "nat \<Rightarrow> world \<Rightarrow> pyval res \<times> world" where
  "conn_recv k w =
     (let c = conns w k; w1 = called (ORecv k) w in
      if closed c then (Raises OSError, w1)
      else case os_error c IoRecv of
        Some e \<Rightarrow> (Raises e, w1)
      | None \<Rightarrow>
          (case incoming c of
             (a, m) # rest \<Rightarrow>
               (Returns m, upd_conn k (\<lambda>p. p\<lparr>incoming := rest\<rparr>) (w1\<lparr>now := max (now w) a\<rparr>))
           | [] \<Rightarrow>
               if closed (conns w (peer c)) then
                 (if reset_pending c
                  then (Raises ConnectionResetError,
                        upd_conn k (\<lambda>p. p\<lparr>reset_pending := False\<rparr>) w1)
                  else (Raises EOFError, w1))
               else (Blocks, w1)))"

text \<open>
  \<^verbatim>\<open>Connection.poll(timeout)\<close> waits in \<^verbatim>\<open>selectors.PollSelector.select\<close>,
  which turns the timeout into the number of milliseconds handed to the operating
  system: zero for a timeout that is not positive, \<^verbatim>\<open>math.ceil(timeout * 1e3)\<close>
  otherwise. \<^verbatim>\<open>math.ceil\<close> raises \<^verbatim>\<open>ValueError\<close> for a NaN and
  \<^verbatim>\<open>OverflowError\<close> for an infinity, and the system call raises
  \<^verbatim>\<open>OverflowError\<close> for a number of milliseconds that does not fit a C
  \<^verbatim>\<open>int\<close>, which is any timeout above 2147483.647 seconds. The result is the
  exception, or the number of seconds the call waits at most.
\<close>

fun select_timeout :: "pynum \<Rightarrow> exn + real" where
  "select_timeout NaN = Inl ValueError"
| "select_timeout PosInf = Inl OverflowError"
| "select_timeout NegInf = Inr 0"
| "select_timeout (Finite t) =
     (if t \<le> 0 then Inr 0
      else if 2147483647 < \<lceil>t * 1000\<rceil> then Inl OverflowError
      else Inr t)"

text \<open>
  Whether a handle becomes readable within a number of seconds (\<open>None\<close> waits
  without limit). A handle at end of file is readable: the read that follows raises.
  A message that is queued is readable from its time of arrival on.
\<close>

definition wait_readable :: "nat \<Rightarrow> real option \<Rightarrow> world \<Rightarrow> bool res \<times> world" where
  "wait_readable k limit w =
     (let c = conns w k in
      case os_error c IoPoll of
        Some e \<Rightarrow> (Raises e, w)
      | None \<Rightarrow>
          (case incoming c of
             (a, m) # rest \<Rightarrow>
               (case limit of
                  None \<Rightarrow> (Returns True, w\<lparr>now := max (now w) a\<rparr>)
                | Some s \<Rightarrow>
                    if a \<le> now w + s then (Returns True, w\<lparr>now := max (now w) a\<rparr>)
                    else (Returns False, w\<lparr>now := now w + s\<rparr>))
           | [] \<Rightarrow>
               if closed (conns w (peer c)) then (Returns True, w)
               else (case limit of
                       None \<Rightarrow> (Blocks, w)
                     | Some s \<Rightarrow> (Returns False, w\<lparr>now := now w + s\<rparr>))))"

text \<open>
  \<^verbatim>\<open>Connection.poll(timeout)\<close>: \<^verbatim>\<open>OSError\<close> on a closed handle; the exception of
  an unusable timeout; otherwise whether the handle becomes readable within the timeout
  (\<open>None\<close> waits without limit).
\<close>

definition conn_poll :: "nat \<Rightarrow> pynum option \<Rightarrow> world \<Rightarrow> bool res \<times> world" where
  "conn_poll k timeout w =
     (let c = conns w k; w1 = called (OPoll k timeout) w in
      if closed c then (Raises OSError, w1)
      else case timeout of
        None \<Rightarrow> wait_readable k None w1
      | Some t \<Rightarrow>
          (case select_timeout t of
             Inl e \<Rightarrow> (Raises e, w1)
           | Inr s \<Rightarrow> wait_readable k (Some s) w1))"

text \<open>
  \<^verbatim>\<open>Connection.close()\<close>: nothing on a closed handle; otherwise the handle is closed
  whether or not the operating system reports an error. If a message that has arrived
  is still unread when the handle is closed, the other end gets a reset.
\<close>

definition unread :: "conn \<Rightarrow> real \<Rightarrow> bool" where
  "unread c t = list_ex (\<lambda>x. fst x \<le> t) (incoming c)"

definition conn_close :: "nat \<Rightarrow> world \<Rightarrow> unit res \<times> world" where
  "conn_close k w =
     (let c = conns w k; w1 = called (OClose k) w in
      if closed c then (Returns (), w1)
      else
        (let w2 = (if unread c (now w)
                   then upd_conn (peer c) (\<lambda>p. p\<lparr>reset_pending := True\<rparr>) w1
                   else w1);
             w3 = upd_conn k (\<lambda>p. p\<lparr>closed := True\<rparr>) w2 in
         case os_error c IoClose of
           Some e \<Rightarrow> (Raises e, w3)
         | None \<Rightarrow> (Returns (), w3)))"

section \<open>\<^verbatim>\<open>Comm\<close>\<close>

text \<open>
  A \<^verbatim>\<open>Comm\<close> is a dataclass with the single field \<^verbatim>\<open>connection\<close>; it is represented
  by the handle of that connection.
\<close>

definition Comm_send :: "nat \<Rightarrow> pyval \<Rightarrow> world \<Rightarrow> unit res \<times> world" where
  "Comm_send k obj w =
     (case conn_send k obj w of
        (Raises e, w1) \<Rightarrow>
          if e = BrokenPipeError
          then (Returns (), logger WARNING (BrokenPipeWhileSending obj) w1)
          else (Raises e, w1)
      | (r, w1) \<Rightarrow> (r, w1))"

text \<open>
  \<^verbatim>\<open>Comm.close\<close> is three \<^verbatim>\<open>try\<close> blocks in a row, guarded by
  \<^verbatim>\<open>if not self.connection.closed\<close>. Each block is a definition of its own:
  sending the sentinel, the optional read of the acknowledgement, closing the handle.
\<close>

definition send_close_signal :: "nat \<Rightarrow> world \<Rightarrow> world" where
  "send_close_signal k w =
     (case conn_send k CLOSE w of
        (Raises e, w1) \<Rightarrow>
          if e = BrokenPipeError then w1
          else logger ERROR (ErrorSendingClose e) w1
      | (_, w1) \<Rightarrow> w1)"

definition await_ack :: "nat \<Rightarrow> world \<Rightarrow> unit res \<times> world" where
  "await_ack k w =
     (case conn_recv k (logger DEBUG WaitingForAck w) of
        (Returns _, w1) \<Rightarrow> (Returns (), logger DEBUG ReceivedAck w1)
      | (Raises e, w1) \<Rightarrow> (Returns (), logger ERROR (ErrorWaitingForAck e) w1)
      | (Blocks, w1) \<Rightarrow> (Blocks, w1))"

definition close_connection :: "nat \<Rightarrow> world \<Rightarrow> world" where
  "close_connection k w =
     (case conn_close k w of
        (Raises e, w1) \<Rightarrow>
          if is_OSError e then w1
          else logger ERROR (ErrorClosingConnection e) w1
      | (_, w1) \<Rightarrow> w1)"

definition Comm_close :: "bool \<Rightarrow> nat \<Rightarrow> world \<Rightarrow> unit res \<times> world" where
  "Comm_close wait_for_ack k w =
     (if \<not> closed (conns w k) then
        (let w1 = send_close_signal k w in
         case (if wait_for_ack then await_ack k w1 else (Returns (), w1)) of
           (Blocks, w2) \<Rightarrow> (Blocks, w2)
         | (_, w2) \<Rightarrow> (Returns (), close_connection k w2))
      else (Returns (), w))"

text \<open>
  \<^verbatim>\<open>Comm.create(duplex=True)\<close>: two fresh, open connections, each the other's peer,
  with nothing in flight.
\<close>

definition fresh_conn :: "nat \<Rightarrow> conn" where
  "fresh_conn p =
     \<lparr>closed = False, peer = p, incoming = [], reset_pending = False, os_error = (\<lambda>_. None)\<rparr>"

definition Comm_create :: "world \<Rightarrow> (nat \<times> nat) \<times> world" where
  "Comm_create w =
     (let r = next_conn w; s = Suc (next_conn w) in
      ((r, s),
       w\<lparr>conns := (conns w)(r := fresh_conn s, s := fresh_conn r),
          next_conn := Suc (Suc (next_conn w))\<rparr>))"

text \<open>
  The \<^verbatim>\<open>block\<close> argument of \<^verbatim>\<open>Comm.request\<close> is \<^verbatim>\<open>True\<close>, \<^verbatim>\<open>False\<close> or a number
  of seconds. The source tests \<^verbatim>\<open>block is False\<close> and \<^verbatim>\<open>block is True\<close>, which no
  number satisfies.
\<close>

datatype block = BlockTrue | BlockFalse | BlockFor pynum

text \<open>
  Both branches of \<^verbatim>\<open>Comm.request\<close> end with the same two lines,
  \<^verbatim>\<open>response = self.connection.poll(...)\<close> and
  \<^verbatim>\<open>return default if not response else self.connection.recv()\<close>. The
  \<^verbatim>\<open>poll()\<close> of the first branch has no argument, which is a timeout of 0.0.
\<close>

definition poll_then_recv :: "nat \<Rightarrow> pynum option \<Rightarrow> pyval \<Rightarrow> world \<Rightarrow> pyval res \<times> world" where
  "poll_then_recv k timeout dflt w =
     (case conn_poll k timeout w of
        (Returns response, w1) \<Rightarrow>
          if \<not> response then (Returns dflt, w1) else conn_recv k w1
      | (Raises e, w1) \<Rightarrow> (Raises e, w1)
      | (Blocks, w1) \<Rightarrow> (Blocks, w1))"

definition Comm_request :: "nat \<Rightarrow> pyval \<Rightarrow> block \<Rightarrow> pyval \<Rightarrow> world \<Rightarrow> pyval res \<times> world" where
  "Comm_request k msg block dflt w =
     (if block = BlockFalse then poll_then_recv k (Some (Finite 0)) dflt w
      else
        (let poll_timeout = (case block of BlockFor t \<Rightarrow> Some t | _ \<Rightarrow> None) in
         case Comm_send k (PTuple [REQUEST, msg]) w of
           (Returns _, w1) \<Rightarrow> poll_then_recv k poll_timeout dflt w1
         | (Raises e, w1) \<Rightarrow> (Raises e, w1)
         | (Blocks, w1) \<Rightarrow> (Blocks, w1)))"

section \<open>\<^verbatim>\<open>AsyncComm\<close>\<close>

text \<open>
  Modelled from the spec: \<^verbatim>\<open>AsyncConnection.recv\<close> of \<^verbatim>\<open>byop.asyncm\<close>, which is
  not among the sources. It suspends the calling coroutine until a message can be read
  from the connection and then reads it, so it completes exactly when the blocking read
  would return (with the same result, after the same delay) and never completes when the
  blocking read would wait for ever. The result is \<open>None\<close> for an awaitable that
  never completes, and the delay, the outcome and the world after it otherwise.
\<close>

definition AsyncConnection_recv :: "nat \<Rightarrow> world \<Rightarrow> (real \<times> pyval res \<times> world) option" where
  "AsyncConnection_recv k w =
     (case conn_recv k w of
        (Blocks, w1) \<Rightarrow> None
      | (r, w1) \<Rightarrow> Some (now w1 - now w, r, w1))"

text \<open>
  \<^verbatim>\<open>asyncio.wait_for(aw, timeout)\<close>: without a timeout it awaits \<open>aw\<close>; with a
  timeout it returns what \<open>aw\<close> returns (or raises what it raises) if \<open>aw\<close>
  completes before the timeout expires, and otherwise cancels \<open>aw\<close>, whose effects
  are then lost, and raises \<^verbatim>\<open>TimeoutError\<close>.
\<close>

definition wait_for ::
  "real option \<Rightarrow> (real \<times> 'a res \<times> world) option \<Rightarrow> world \<Rightarrow> 'a res \<times> world" where
  "wait_for timeout aw w =
     (case timeout of
        None \<Rightarrow>
          (case aw of
             None \<Rightarrow> (Blocks, w)
           | Some (delay, r, w1) \<Rightarrow> (r, w1))
      | Some t \<Rightarrow>
          (case aw of
             None \<Rightarrow> (Raises TimeoutError, w\<lparr>now := now w + max t 0\<rparr>)
           | Some (delay, r, w1) \<Rightarrow>
               if delay < t then (r, w1)
               else (Raises TimeoutError, w\<lparr>now := now w + max t 0\<rparr>)))"

definition AsyncComm_request :: "nat \<Rightarrow> real option \<Rightarrow> pyval \<Rightarrow> world \<Rightarrow> pyval res \<times> world" where
  "AsyncComm_request k timeout dflt w =
     (case wait_for timeout (AsyncConnection_recv k w) w of
        (Returns result, w1) \<Rightarrow> (Returns (if result = PNone then dflt else result), w1)
      | (r, w1) \<Rightarrow> (r, w1))"

section \<open>\<^verbatim>\<open>CommTask\<close>\<close>

record msg =
  task :: string
  comm :: nat
  future :: nat
  data :: pyval

datatype payload = NoPayload | MsgPayload msg | FuturePayload nat

text \<open>
  The task object: the fields of \<^verbatim>\<open>CommTask\<close> and of its base class that the
  claims touch. \<open>dispatched\<close> lists the calls handed to the executor, each with the
  \<^verbatim>\<open>Comm\<close> passed as the callable's first argument; \<open>communication_tasks\<close>
  holds, for each future, the arguments of its \<^verbatim>\<open>_communicate\<close> coroutine;
  \<open>emitted\<close> is the sequence of \<^verbatim>\<open>emit\<close> calls.
\<close>

record commtask =
  name :: string
  n_called :: nat
  call_limit :: "nat option"
  next_future :: nat
  dispatched :: "(nat \<times> nat) list"
  worker_comms :: "nat \<rightharpoonup> nat"
  communication_tasks :: "nat \<rightharpoonup> nat \<times> nat"
  emitted :: "(pyval \<times> payload) list"

text \<open>
  Modelled from the spec: \<^verbatim>\<open>Task.emit\<close>, which is not among the sources. Subscribers
  run synchronously and their exceptions are swallowed, so for the relay an emission is
  one more entry in the sequence of emitted events.
\<close>

definition emit :: "pyval \<Rightarrow> payload \<Rightarrow> commtask \<Rightarrow> commtask" where
  "emit event arg T = T\<lparr>emitted := emitted T @ [(event, arg)]\<rparr>"

text \<open>
  Modelled from the spec: \<^verbatim>\<open>Task.__call__\<close>, which is not among the sources. When
  the call limit is reached it returns \<^verbatim>\<open>None\<close> and emits nothing; otherwise it
  counts the call, hands it to the executor, emits SUBMITTED with the new future and
  returns the future.
\<close>

definition SUBMITTED :: pyval where
  "SUBMITTED = PEvent ''task-submitted''"

definition Task_call :: "nat \<Rightarrow> commtask \<Rightarrow> nat option \<times> commtask" where
  "Task_call arg T =
     (if (case call_limit T of None \<Rightarrow> False | Some n \<Rightarrow> n \<le> n_called T) then (None, T)
      else
        (let f = next_future T in
         (Some f,
          emit SUBMITTED (FuturePayload f)
            (T\<lparr>n_called := Suc (n_called T), next_future := Suc f,
                dispatched := dispatched T @ [(f, arg)]\<rparr>))))"

definition CommTask_call :: "commtask \<times> world \<Rightarrow> nat option \<times> commtask \<times> world" where
  "CommTask_call Tw =
     (case Tw of (T, w) \<Rightarrow>
        (case Comm_create w of ((scheduler_comm, worker_comm), w1) \<Rightarrow>
           (case Task_call worker_comm T of
              (None, T1) \<Rightarrow> (None, T1, w1)
            | (Some task_future, T1) \<Rightarrow>
                (Some task_future,
                 T1\<lparr>worker_comms := (worker_comms T1)(task_future \<mapsto> worker_comm),
                     communication_tasks :=
                       (communication_tasks T1)(task_future \<mapsto> (task_future, scheduler_comm))\<rparr>,
                 w1))))"

text \<open>
  The test at the head of the loop body,
  \<^verbatim>\<open>isinstance(data, tuple) and len(data) == 2 and data[0] == CommTask.REQUEST\<close>,
  and the unpacking \<^verbatim>\<open>_, real_data = data\<close> that follows it (only ever applied
  to a tuple of length two).
\<close>

definition is_request :: "pyval \<Rightarrow> bool" where
  "is_request d = (case d of PTuple xs \<Rightarrow> length xs = 2 \<and> xs ! 0 = REQUEST | _ \<Rightarrow> False)"

definition real_data :: "pyval \<Rightarrow> pyval" where
  "real_data d = (case d of PTuple [_, x] \<Rightarrow> x | _ \<Rightarrow> PNone)"

text \<open>
  The \<^verbatim>\<open>while True\<close> loop of \<^verbatim>\<open>CommTask._communicate\<close>. It ends by
  \<^verbatim>\<open>break\<close> after a CLOSE message or after \<^verbatim>\<open>EOFError\<close>; any other exception
  leaves the coroutine; and when no message is left while the other end is still open
  the coroutine stays suspended in its \<^verbatim>\<open>await\<close>.
\<close>

datatype loop_exit = ExitClose | ExitEOF | Suspended | Crashed exn

function relay_loop :: "nat \<Rightarrow> nat \<Rightarrow> commtask \<times> world \<Rightarrow> loop_exit \<times> commtask \<times> world" where
  "relay_loop fut c (T, w) =
     (case AsyncComm_request c None PNone w of
        (Returns d, w1) \<Rightarrow>
          (let w2 = logger DEBUG (RelayReceived d) w1 in
           if is_request d then
             relay_loop fut c
               (emit REQUEST
                  (MsgPayload \<lparr>task = name T, comm = c, future = fut, data = real_data d\<rparr>) T,
                w2)
           else if d = CLOSE then (ExitClose, emit CLOSE NoPayload T, w2)
           else
             relay_loop fut c
               (emit MESSAGE
                  (MsgPayload \<lparr>task = name T, comm = c, future = fut, data = d\<rparr>) T,
                w2))
      | (Raises e, w1) \<Rightarrow>
          if e = EOFError then (ExitEOF, T, logger DEBUG RelayClosedConnection w1)
          else (Crashed e, T, w1)
      | (Blocks, w1) \<Rightarrow> (Suspended, T, w1))"
  by pat_completeness auto
termination
proof (relation "measure (\<lambda>(fut, c, T, w). length (incoming (conns w c)))")
  show "wf (measure (\<lambda>(fut, c, T, w). length (incoming (conns w c))))"
    by simp
next
  fix fut c T w x y d z
  assume "(x, y) = AsyncComm_request c None PNone w" and "x = Returns d"
    and "z = logger DEBUG (RelayReceived d) y"
  then have "length (incoming (conns y c)) < length (incoming (conns w c))"
    by (auto simp: AsyncComm_request_def wait_for_def AsyncConnection_recv_def conn_recv_def
        Let_def called_def upd_conn_def
        split: option.splits res.splits prod.splits if_splits list.splits)
  then show "((fut, c, emit REQUEST
            (MsgPayload \<lparr>task = name T, comm = c, future = fut, data = real_data d\<rparr>) T, z),
          (fut, c, T, w)) \<in> measure (\<lambda>(fut, c, T, w). length (incoming (conns w c)))"
    using \<open>z = logger DEBUG (RelayReceived d) y\<close> by (simp add: logger_def)
next
  fix fut c T w x y d z
  assume "(x, y) = AsyncComm_request c None PNone w" and "x = Returns d"
    and "z = logger DEBUG (RelayReceived d) y"
  then have "length (incoming (conns y c)) < length (incoming (conns w c))"
    by (auto simp: AsyncComm_request_def wait_for_def AsyncConnection_recv_def conn_recv_def
        Let_def called_def upd_conn_def
        split: option.splits res.splits prod.splits if_splits list.splits)
  then show "((fut, c, emit MESSAGE
            (MsgPayload \<lparr>task = name T, comm = c, future = fut, data = d\<rparr>) T, z),
          (fut, c, T, w)) \<in> measure (\<lambda>(fut, c, T, w). length (incoming (conns w c)))"
    using \<open>z = logger DEBUG (RelayReceived d) y\<close> by (simp add: logger_def)
qed

text \<open>
  The code of \<^verbatim>\<open>_communicate\<close> after the loop: the relay closes its own comm
  without waiting for an acknowledgement, pops the worker's comm from
  \<^verbatim>\<open>worker_comms\<close> (\<^verbatim>\<open>KeyError\<close> if the future is not a key) and closes it.
\<close>

definition close_comms :: "nat \<Rightarrow> nat \<Rightarrow> commtask \<times> world \<Rightarrow> unit res \<times> commtask \<times> world" where
  "close_comms fut c Tw =
     (case Tw of (T, w) \<Rightarrow>
        (case Comm_close False c (logger DEBUG RelayFinished w) of
           (Returns _, w1) \<Rightarrow>
             (case worker_comms T fut of
                None \<Rightarrow> (Raises KeyError, T, w1)
              | Some worker_comm \<Rightarrow>
                  (let T1 = T\<lparr>worker_comms := (worker_comms T)(fut := None)\<rparr> in
                   case Comm_close False worker_comm w1 of
                     (Returns _, w2) \<Rightarrow> (Returns (), T1, logger DEBUG RelayClosedComms w2)
                   | (Raises e, w2) \<Rightarrow> (Raises e, T1, w2)
                   | (Blocks, w2) \<Rightarrow> (Blocks, T1, w2)))
         | (Raises e, w1) \<Rightarrow> (Raises e, T, w1)
         | (Blocks, w1) \<Rightarrow> (Blocks, T, w1)))"

definition CommTask_communicate ::
  "nat \<Rightarrow> nat \<Rightarrow> commtask \<times> world \<Rightarrow> unit res \<times> commtask \<times> world" where
  "CommTask_communicate fut c Tw =
     (case relay_loop fut c Tw of
        (Crashed e, T1, w1) \<Rightarrow> (Raises e, T1, w1)
      | (Suspended, T1, w1) \<Rightarrow> (Blocks, T1, w1)
      | (_, T1, w1) \<Rightarrow> close_comms fut c (T1, w1))"

section \<open>The relay as the specification describes it\<close>




section \<open>Auxiliary notions and example states\<close>

text \<open>A worker that calls \<^verbatim>\<open>comm.send\<close> on each element of a list in turn.\<close>

fun send_all :: "nat \<Rightarrow> pyval list \<Rightarrow> world \<Rightarrow> world" where
  "send_all k [] w = w"
| "send_all k (x # xs) w = send_all k xs (snd (Comm_send k x w))"

text \<open>The events a run of the relay has added to those emitted before it.\<close>

definition new_events :: "commtask \<Rightarrow> commtask \<Rightarrow> (pyval \<times> payload) list" where
  "new_events T T' = drop (length (emitted T)) (emitted T')"

text \<open>
  \<open>world0\<close> is a process in which no connection is open yet; \<open>pipe0\<close> is that
  process after one \<^verbatim>\<open>Comm.create\<close>, with the scheduler's end at handle 0 and the
  worker's end at handle 1; in \<open>peer_gone\<close> the scheduler's end has been closed.
  \<open>task0\<close> is a task that has not been called.
\<close>

definition world0 :: world where
  "world0 =
     \<lparr>conns = (\<lambda>k. \<lparr>closed = True, peer = k, incoming = [], reset_pending = False,
                    os_error = (\<lambda>_. None)\<rparr>),
      next_conn = 0, now = 0, ops = [], logs = []\<rparr>"

definition pipe0 :: world where
  "pipe0 = snd (Comm_create world0)"

definition peer_gone :: world where
  "peer_gone = snd (Comm_close False 0 pipe0)"

definition task0 :: commtask where
  "task0 =
     \<lparr>name = ''calculate'', n_called = 0, call_limit = None, next_future = 0,
      dispatched = [], worker_comms = Map.empty, communication_tasks = Map.empty,
      emitted = []\<rparr>"

text \<open>A sequence of emitted events none of which is CLOSE.\<close>

definition close_free :: "(pyval \<times> payload) list \<Rightarrow> bool" where
  "close_free es = (CLOSE \<notin> fst ` set es)"

text \<open>
  Three states of the pipe as the relay may find it. In \<open>torn_down\<close> the worker has
  sent 10 and its end has then been closed on the transport, with no CLOSE sentinel; in
  \<open>closed_cleanly\<close> it has sent 10 and then called \<^verbatim>\<open>Comm.close\<close>; in
  \<open>close_requested\<close> it has sent 10 and the CLOSE sentinel and still holds its end
  open, as it does while it waits for the acknowledgement. \<open>task1\<close> is \<open>task0\<close>
  after one call in \<open>world0\<close>: its future 0 has the worker's comm 1.
\<close>

definition torn_down :: world where
  "torn_down = snd (conn_close 1 (send_all 1 [PInt 10] pipe0))"

definition closed_cleanly :: world where
  "closed_cleanly = snd (Comm_close False 1 (send_all 1 [PInt 10] pipe0))"

definition close_requested :: world where
  "close_requested = send_all 1 [PInt 10, CLOSE] pipe0"

definition task1 :: commtask where
  "task1 = fst (snd (CommTask_call (task0, world0)))"

text \<open>In \<open>late_reply\<close> a message for the worker is under way and arrives in 3 seconds.\<close>

definition late_reply :: world where
  "late_reply = upd_conn 1 (\<lambda>c. c\<lparr>incoming := [(3, PInt 9)]\<rparr>) pipe0"

text \<open>
  In \<open>hung_up\<close> the scheduler's end has been closed on the transport with nothing
  sent. In \<open>dropped\<close> the scheduler has sent 7 and the worker's end has been closed
  without reading it, so a reset is pending on the scheduler's end.
\<close>

definition hung_up :: world where
  "hung_up = snd (conn_close 0 pipe0)"

definition dropped :: world where
  "dropped = snd (conn_close 1 (snd (Comm_send 0 (PInt 7) pipe0)))"

text \<open>
  In \<open>faulty\<close> the operating system answers every primitive on the worker's end with
  an error that is not an \<^verbatim>\<open>OSError\<close>.
\<close>

definition faulty :: world where
  "faulty = upd_conn 1 (\<lambda>c. c\<lparr>os_error := (\<lambda>_. Some RuntimeError)\<rparr>) pipe0"

section \<open>Facts about the transport\<close>

declare relay_loop.simps [simp del]

lemmas eval_defs = pipe0_def world0_def peer_gone_def faulty_def late_reply_def task0_def
  hung_up_def dropped_def Comm_create_def fresh_conn_def
  Comm_close_def send_close_signal_def await_ack_def close_connection_def conn_send_def
  conn_recv_def conn_poll_def wait_readable_def unread_def conn_close_def Comm_send_def
  Comm_request_def
  poll_then_recv_def called_def logger_def upd_conn_def Let_def
  CLOSE_def REQUEST_def MESSAGE_def

lemma called_sel [simp]:
  "conns (called x w) = conns w" "now (called x w) = now w" "logs (called x w) = logs w"
  "ops (called x w) = ops w @ [x]" "next_conn (called x w) = next_conn w"
  by (simp_all add: called_def)

lemma logger_sel [simp]:
  "conns (logger l m w) = conns w" "now (logger l m w) = now w"
  "logs (logger l m w) = logs w @ [(l, m)]"
  "ops (logger l m w) = ops w" "next_conn (logger l m w) = next_conn w"
  by (simp_all add: logger_def)

lemma upd_conn_sel [simp]:
  "conns (upd_conn k f w) = (conns w)(k := f (conns w k))" "now (upd_conn k f w) = now w"
  "logs (upd_conn k f w) = logs w" "ops (upd_conn k f w) = ops w"
  "next_conn (upd_conn k f w) = next_conn w"
  by (simp_all add: upd_conn_def)

lemma conn_send_frame:
  "conn_send k obj w = (r, w') \<Longrightarrow>
     ops w' = ops w @ [OSend k obj] \<and> logs w' = logs w \<and> now w' = now w \<and> r \<noteq> Blocks
     \<and> next_conn w' = next_conn w
     \<and> (\<forall>j. closed (conns w' j) = closed (conns w j) \<and> os_error (conns w' j) = os_error (conns w j)
            \<and> peer (conns w' j) = peer (conns w j))"
  by (auto simp: conn_send_def Let_def split: option.splits if_splits)

lemma conn_recv_frame:
  "conn_recv k w = (r, w') \<Longrightarrow>
     ops w' = ops w @ [ORecv k] \<and> logs w' = logs w \<and> next_conn w' = next_conn w
     \<and> (\<forall>j. j \<noteq> k \<longrightarrow> conns w' j = conns w j)
     \<and> (\<forall>j. closed (conns w' j) = closed (conns w j) \<and> os_error (conns w' j) = os_error (conns w j)
            \<and> peer (conns w' j) = peer (conns w j))"
  by (auto simp: conn_recv_def Let_def split: option.splits if_splits list.splits)

lemma wait_readable_frame:
  "wait_readable k limit w = (r, w') \<Longrightarrow>
     ops w' = ops w \<and> logs w' = logs w \<and> conns w' = conns w \<and> next_conn w' = next_conn w
     \<and> (limit \<noteq> None \<longrightarrow> r \<noteq> Blocks)"
  by (auto simp: wait_readable_def Let_def split: option.splits if_splits list.splits)

lemma conn_poll_frame:
  "conn_poll k timeout w = (r, w') \<Longrightarrow>
     ops w' = ops w @ [OPoll k timeout] \<and> logs w' = logs w \<and> conns w' = conns w
     \<and> next_conn w' = next_conn w \<and> (timeout \<noteq> None \<longrightarrow> r \<noteq> Blocks)"
proof -
  assume a: "conn_poll k timeout w = (r, w')"
  obtain b v where q: "wait_readable k (case timeout of None \<Rightarrow> None
        | Some t \<Rightarrow> (case select_timeout t of Inl e \<Rightarrow> None | Inr s \<Rightarrow> Some s))
      (called (OPoll k timeout) w) = (b, v)" by fastforce
  from wait_readable_frame[OF q] a q show ?thesis
    by (auto simp: conn_poll_def Let_def split: option.splits if_splits sum.splits)
qed

lemma conn_close_frame:
  "conn_close k w = (r, w') \<Longrightarrow>
     ops w' = ops w @ [OClose k] \<and> logs w' = logs w \<and> now w' = now w \<and> r \<noteq> Blocks
     \<and> next_conn w' = next_conn w
     \<and> closed (conns w' k) \<and> (\<forall>j. j \<noteq> k \<longrightarrow> closed (conns w' j) = closed (conns w j))
     \<and> (\<forall>j. incoming (conns w' j) = incoming (conns w j)
            \<and> os_error (conns w' j) = os_error (conns w j)
            \<and> peer (conns w' j) = peer (conns w j))"
  by (auto simp: conn_close_def Let_def split: option.splits if_splits)

section \<open>Facts about \<^verbatim>\<open>Comm.close\<close>\<close>

lemma close_connection_closes: "closed (conns (close_connection k w) k)"
proof -
  obtain r w1 where s: "conn_close k w = (r, w1)" by fastforce
  from conn_close_frame[OF s] show ?thesis
    by (simp add: close_connection_def s split: res.splits)
qed

lemma await_ack_no_raise: "fst (await_ack k w) \<noteq> Raises e"
proof -
  obtain r w1 where s: "conn_recv k (logger DEBUG WaitingForAck w) = (r, w1)" by fastforce
  show ?thesis by (simp add: await_ack_def s split: res.splits)
qed

lemma Comm_close_no_raise: "fst (Comm_close ack k w) \<noteq> Raises e"
proof -
  obtain r w1 where s: "await_ack k (send_close_signal k w) = (r, w1)" by fastforce
  with await_ack_no_raise[of k "send_close_signal k w" e] show ?thesis
    by (simp add: Comm_close_def Let_def split: res.splits)
qed

lemma Comm_close_closed: "closed (conns w k) \<Longrightarrow> Comm_close ack k w = (Returns (), w)"
  by (simp add: Comm_close_def)

lemma Comm_close_closes:
  assumes "fst (Comm_close ack k w) = Returns ()"
  shows "closed (conns (snd (Comm_close ack k w)) k)"
proof (cases "closed (conns w k)")
  case True
  then show ?thesis by (simp add: Comm_close_closed)
next
  case False
  obtain r w1 where s: "await_ack k (send_close_signal k w) = (r, w1)" by fastforce
  show ?thesis using False assms
    by (auto simp add: Comm_close_def Let_def s close_connection_closes
        split: res.splits if_splits)
qed

lemma send_close_signal_frame:
  "closed (conns (send_close_signal k w) j) = closed (conns w j)"
  "os_error (conns (send_close_signal k w) j) = os_error (conns w j)"
proof -
  obtain r w1 where s: "conn_send k CLOSE w = (r, w1)" by fastforce
  from conn_send_frame[OF s] show "closed (conns (send_close_signal k w) j) = closed (conns w j)"
    "os_error (conns (send_close_signal k w) j) = os_error (conns w j)"
    by (simp_all add: send_close_signal_def s split: res.splits)
qed

lemma send_close_signal_logs:
  "logs (send_close_signal k w) = logs w @
     (case fst (conn_send k CLOSE w) of
        Raises e \<Rightarrow> if e = BrokenPipeError then [] else [(ERROR, ErrorSendingClose e)]
      | _ \<Rightarrow> [])"
proof -
  obtain r w1 where s: "conn_send k CLOSE w = (r, w1)" by fastforce
  from conn_send_frame[OF s] show ?thesis
    by (simp add: send_close_signal_def s split: res.splits)
qed

text \<open>What is in the log has no influence on what a read does.\<close>

lemma conn_recv_logger: "fst (conn_recv k (logger l m w)) = fst (conn_recv k w)"
  by (simp add: conn_recv_def Let_def split: option.splits list.splits)

lemma send_close_signal_recv:
  "fst (conn_recv k (send_close_signal k w)) = fst (conn_recv k (snd (conn_send k CLOSE w)))"
proof -
  obtain r w1 where s: "conn_send k CLOSE w = (r, w1)" by fastforce
  show ?thesis
    by (simp add: send_close_signal_def s conn_recv_logger split: res.splits)
qed

lemma await_ack_outcome:
  "fst (await_ack k w) = (if fst (conn_recv k w) = Blocks then Blocks else Returns ())"
  "logs (snd (await_ack k w)) = logs w @ [(DEBUG, WaitingForAck)] @
     (case fst (conn_recv k w) of
        Returns x \<Rightarrow> [(DEBUG, ReceivedAck)]
      | Raises e \<Rightarrow> [(ERROR, ErrorWaitingForAck e)]
      | Blocks \<Rightarrow> [])"
  "closed (conns (snd (await_ack k w)) j) = closed (conns w j)"
  "os_error (conns (snd (await_ack k w)) j) = os_error (conns w j)"
proof -
  obtain r w1 where s: "conn_recv k (logger DEBUG WaitingForAck w) = (r, w1)" by fastforce
  have r: "fst (conn_recv k w) = r"
    using conn_recv_logger[of k DEBUG WaitingForAck w] by (simp add: s)
  note f = conn_recv_frame[OF s]
  show "fst (await_ack k w) = (if fst (conn_recv k w) = Blocks then Blocks else Returns ())"
    by (simp add: await_ack_def s r split: res.splits)
  show "logs (snd (await_ack k w)) = logs w @ [(DEBUG, WaitingForAck)] @
     (case fst (conn_recv k w) of
        Returns x \<Rightarrow> [(DEBUG, ReceivedAck)]
      | Raises e \<Rightarrow> [(ERROR, ErrorWaitingForAck e)]
      | Blocks \<Rightarrow> [])"
    using f by (simp add: await_ack_def s r split: res.splits)
  show "closed (conns (snd (await_ack k w)) j) = closed (conns w j)"
    using f by (simp add: await_ack_def s split: res.splits)
  show "os_error (conns (snd (await_ack k w)) j) = os_error (conns w j)"
    using f by (simp add: await_ack_def s split: res.splits)
qed

lemma close_connection_logs:
  "\<not> closed (conns w k) \<Longrightarrow> logs (close_connection k w) = logs w @
     (case os_error (conns w k) IoClose of
        Some e \<Rightarrow> if is_OSError e then [] else [(ERROR, ErrorClosingConnection e)]
      | None \<Rightarrow> [])"
  by (simp add: close_connection_def conn_close_def Let_def split: option.splits)

text \<open>The log of a close of an open connection that has returned.\<close>

lemma Comm_close_no_ack_logs:
  assumes "\<not> closed (conns w k)"
  shows "logs (snd (Comm_close False k w)) = logs w @
     (case fst (conn_send k CLOSE w) of
        Raises x \<Rightarrow> if x = BrokenPipeError then [] else [(ERROR, ErrorSendingClose x)]
      | _ \<Rightarrow> []) @
     (case os_error (conns w k) IoClose of
        Some x \<Rightarrow> if is_OSError x then [] else [(ERROR, ErrorClosingConnection x)]
      | None \<Rightarrow> [])"
  using assms
  by (simp add: Comm_close_def Let_def close_connection_logs send_close_signal_frame
      send_close_signal_logs)

lemma Comm_close_ack_logs:
  assumes "\<not> closed (conns w k)" "fst (Comm_close True k w) = Returns ()"
  shows "logs (snd (Comm_close True k w)) = logs w @
     (case fst (conn_send k CLOSE w) of
        Raises x \<Rightarrow> if x = BrokenPipeError then [] else [(ERROR, ErrorSendingClose x)]
      | _ \<Rightarrow> []) @
     (DEBUG, WaitingForAck) #
     (case fst (conn_recv k (snd (conn_send k CLOSE w))) of
        Returns x \<Rightarrow> [(DEBUG, ReceivedAck)]
      | Raises x \<Rightarrow> [(ERROR, ErrorWaitingForAck x)]
      | Blocks \<Rightarrow> []) @
     (case os_error (conns w k) IoClose of
        Some x \<Rightarrow> if is_OSError x then [] else [(ERROR, ErrorClosingConnection x)]
      | None \<Rightarrow> [])"
proof -
  let ?w1 = "send_close_signal k w"
  obtain r w2 where s: "await_ack k ?w1 = (r, w2)" by fastforce
  have o2: "logs w2 = logs ?w1 @ [(DEBUG, WaitingForAck)] @
     (case fst (conn_recv k ?w1) of
        Returns x \<Rightarrow> [(DEBUG, ReceivedAck)]
      | Raises e \<Rightarrow> [(ERROR, ErrorWaitingForAck e)]
      | Blocks \<Rightarrow> [])"
    using await_ack_outcome(2)[of k ?w1] by (simp add: s)
  have o3: "closed (conns w2 k) = closed (conns ?w1 k)"
    using await_ack_outcome(3)[of k ?w1 k] by (simp add: s)
  have o4: "os_error (conns w2 k) = os_error (conns ?w1 k)"
    using await_ack_outcome(4)[of k ?w1 k] by (simp add: s)
  have nb: "r \<noteq> Blocks" using assms
    by (auto simp: Comm_close_def Let_def s split: res.splits)
  have e: "snd (Comm_close True k w) = close_connection k w2" using assms(1) nb
    by (cases r) (simp_all add: Comm_close_def Let_def s)
  have c2: "\<not> closed (conns w2 k)" "os_error (conns w2 k) = os_error (conns w k)"
    using assms(1) o3 o4 by (simp_all add: send_close_signal_frame)
  show ?thesis
    by (simp add: e close_connection_logs[OF c2(1)] c2(2) o2 send_close_signal_logs
        send_close_signal_recv)
qed

lemma Comm_close_logs:
  assumes "\<not> closed (conns w k)" "fst (Comm_close ack k w) = Returns ()"
  shows "logs (snd (Comm_close ack k w)) = logs w @
     (case fst (conn_send k CLOSE w) of
        Raises x \<Rightarrow> if x = BrokenPipeError then [] else [(ERROR, ErrorSendingClose x)]
      | _ \<Rightarrow> []) @
     (if ack then
        (DEBUG, WaitingForAck) #
        (case fst (conn_recv k (snd (conn_send k CLOSE w))) of
           Returns x \<Rightarrow> [(DEBUG, ReceivedAck)]
         | Raises x \<Rightarrow> [(ERROR, ErrorWaitingForAck x)]
         | Blocks \<Rightarrow> [])
      else []) @
     (case os_error (conns w k) IoClose of
        Some x \<Rightarrow> if is_OSError x then [] else [(ERROR, ErrorClosingConnection x)]
      | None \<Rightarrow> [])"
  using Comm_close_no_ack_logs[OF assms(1)] Comm_close_ack_logs[OF assms(1)] assms(2)
  by (cases ack) simp_all

lemma Comm_close_waits:
  assumes "\<not> closed (conns w k)" "fst (conn_recv k (snd (conn_send k CLOSE w))) = Blocks"
  shows "fst (Comm_close True k w) = Blocks"
proof -
  obtain r w2 where s: "await_ack k (send_close_signal k w) = (r, w2)" by fastforce
  have "r = Blocks"
    using await_ack_outcome(1)[of k "send_close_signal k w"] assms(2)
    by (simp add: s send_close_signal_recv)
  then show ?thesis using assms(1) by (simp add: Comm_close_def Let_def s)
qed

section \<open>Facts about \<^verbatim>\<open>Comm.request\<close>\<close>

lemma select_timeout_nonneg: "select_timeout t = Inr s \<Longrightarrow> 0 \<le> s"
  by (cases t) (auto split: if_splits)

lemma poll_then_recv_shape:
  assumes "poll_then_recv k (Some t) d w = (r, w')"
  shows "r \<noteq> Blocks"
    and "ops w' = ops w @ [OPoll k (Some t)] \<or> ops w' = ops w @ [OPoll k (Some t), ORecv k]"
    and "\<forall>j. j \<noteq> k \<longrightarrow> conns w' j = conns w j"
    and "logs w' = logs w"
proof -
  obtain b w1 where p: "conn_poll k (Some t) w = (b, w1)" by fastforce
  obtain v w2 where q: "conn_recv k w1 = (v, w2)" by fastforce
  note pf = conn_poll_frame[OF p] and qf = conn_recv_frame[OF q]
  have nb: "b \<noteq> Blocks" using pf by simp
  have rd: "b = Returns True \<Longrightarrow>
      incoming (conns w k) \<noteq> [] \<or> closed (conns w (peer (conns w k)))"
    using p
    by (auto simp: conn_poll_def wait_readable_def Let_def
        split: option.splits if_splits list.splits sum.splits)
  have rb: "b = Returns True \<Longrightarrow> v \<noteq> Blocks"
    using rd q pf
    by (auto simp: conn_recv_def Let_def split: option.splits if_splits list.splits)
  show "r \<noteq> Blocks" using assms nb rb
    by (auto simp: poll_then_recv_def p q split: res.splits if_splits)
  show "ops w' = ops w @ [OPoll k (Some t)] \<or> ops w' = ops w @ [OPoll k (Some t), ORecv k]"
    using assms pf qf by (auto simp: poll_then_recv_def p q split: res.splits if_splits)
  show "\<forall>j. j \<noteq> k \<longrightarrow> conns w' j = conns w j"
    using assms pf qf by (auto simp: poll_then_recv_def p q split: res.splits if_splits)
  show "logs w' = logs w"
    using assms pf qf by (auto simp: poll_then_recv_def p q split: res.splits if_splits)
qed

lemma poll_then_recv_closed:
  "closed (conns w k) \<Longrightarrow>
     poll_then_recv k timeout d w = (Raises OSError, called (OPoll k timeout) w)"
  by (simp add: poll_then_recv_def conn_poll_def Let_def)

lemma poll_then_recv_unusable:
  assumes "\<not> closed (conns w k)" "select_timeout t = Inl x"
  shows "poll_then_recv k (Some t) d w = (Raises x, called (OPoll k (Some t)) w)"
  using assms by (simp add: poll_then_recv_def conn_poll_def Let_def)

lemma poll_then_recv_reply:
  assumes "\<not> closed (conns w k)" "os_error (conns w k) IoPoll = None"
    "os_error (conns w k) IoRecv = None" "select_timeout t = Inr s"
    "incoming (conns w k) = (a, m) # rest" "a \<le> now w + s"
  shows "poll_then_recv k (Some t) d w =
     (Returns m, upd_conn k (\<lambda>p. p\<lparr>incoming := rest\<rparr>)
        ((called (ORecv k) (called (OPoll k (Some t)) w))\<lparr>now := max (now w) a\<rparr>))"
  using assms
  by (simp add: poll_then_recv_def conn_poll_def wait_readable_def conn_recv_def Let_def
      called_def upd_conn_def)

lemma poll_then_recv_late:
  assumes "\<not> closed (conns w k)" "os_error (conns w k) IoPoll = None"
    "select_timeout t = Inr s"
    "incoming (conns w k) = (a, m) # rest" "now w + s < a"
  shows "poll_then_recv k (Some t) d w =
     (Returns d, (called (OPoll k (Some t)) w)\<lparr>now := now w + s\<rparr>)"
  using assms
  by (simp add: poll_then_recv_def conn_poll_def wait_readable_def Let_def)

lemma poll_then_recv_empty:
  assumes "\<not> closed (conns w k)" "os_error (conns w k) IoPoll = None"
    "select_timeout t = Inr s"
    "incoming (conns w k) = []" "\<not> closed (conns w (peer (conns w k)))"
  shows "poll_then_recv k (Some t) d w =
     (Returns d, (called (OPoll k (Some t)) w)\<lparr>now := now w + s\<rparr>)"
  using assms
  by (simp add: poll_then_recv_def conn_poll_def wait_readable_def Let_def)

lemma poll_then_recv_eof:
  assumes "\<not> closed (conns w k)" "os_error (conns w k) IoPoll = None"
    "os_error (conns w k) IoRecv = None" "select_timeout t = Inr s"
    "incoming (conns w k) = []" "closed (conns w (peer (conns w k)))"
  shows "fst (poll_then_recv k (Some t) d w) =
           Raises (if reset_pending (conns w k) then ConnectionResetError else EOFError)"
    and "now (snd (poll_then_recv k (Some t) d w)) = now w"
  using assms
  by (simp_all add: poll_then_recv_def conn_poll_def wait_readable_def conn_recv_def Let_def)

text \<open>
  What the two closing lines of \<^verbatim>\<open>Comm.request\<close> do on an open connection on
  which neither the poll nor the read meets a fault of the operating system.
\<close>

lemma poll_then_recv_spec:
  assumes "\<not> closed (conns w k)" "os_error (conns w k) IoPoll = None"
    "os_error (conns w k) IoRecv = None" "poll_then_recv k (Some t) d w = (r, w')"
  shows "select_timeout t = Inl x \<Longrightarrow> r = Raises x \<and> w' = called (OPoll k (Some t)) w"
    and "select_timeout t = Inr s \<Longrightarrow> incoming (conns w k) = (a, m) # rest \<Longrightarrow> a \<le> now w + s
           \<Longrightarrow> r = Returns m \<and> incoming (conns w' k) = rest \<and> now w' = max (now w) a"
    and "select_timeout t = Inr s \<Longrightarrow> incoming (conns w k) = (a, m) # rest \<Longrightarrow> now w + s < a
           \<Longrightarrow> r = Returns d \<and> now w' = now w + s \<and> conns w' = conns w"
    and "select_timeout t = Inr s \<Longrightarrow> incoming (conns w k) = []
           \<Longrightarrow> \<not> closed (conns w (peer (conns w k)))
           \<Longrightarrow> r = Returns d \<and> now w' = now w + s \<and> conns w' = conns w"
    and "select_timeout t = Inr s \<Longrightarrow> incoming (conns w k) = []
           \<Longrightarrow> closed (conns w (peer (conns w k)))
           \<Longrightarrow> r = Raises (if reset_pending (conns w k) then ConnectionResetError
                            else EOFError)
               \<and> now w' = now w"
proof -
  show "select_timeout t = Inl x \<Longrightarrow> r = Raises x \<and> w' = called (OPoll k (Some t)) w"
    using poll_then_recv_unusable[OF assms(1), of t x d] assms(4) by simp
  show "select_timeout t = Inr s \<Longrightarrow> incoming (conns w k) = (a, m) # rest \<Longrightarrow> a \<le> now w + s
           \<Longrightarrow> r = Returns m \<and> incoming (conns w' k) = rest \<and> now w' = max (now w) a"
    using poll_then_recv_reply[OF assms(1-3), of t s a m rest d] assms(4) by auto
  show "select_timeout t = Inr s \<Longrightarrow> incoming (conns w k) = (a, m) # rest \<Longrightarrow> now w + s < a
           \<Longrightarrow> r = Returns d \<and> now w' = now w + s \<and> conns w' = conns w"
    using poll_then_recv_late[OF assms(1,2), of t s a m rest d] assms(4) by auto
  show "select_timeout t = Inr s \<Longrightarrow> incoming (conns w k) = []
           \<Longrightarrow> \<not> closed (conns w (peer (conns w k)))
           \<Longrightarrow> r = Returns d \<and> now w' = now w + s \<and> conns w' = conns w"
    using poll_then_recv_empty[OF assms(1,2), of t s d] assms(4) by auto
  show "select_timeout t = Inr s \<Longrightarrow> incoming (conns w k) = []
           \<Longrightarrow> closed (conns w (peer (conns w k)))
           \<Longrightarrow> r = Raises (if reset_pending (conns w k) then ConnectionResetError
                            else EOFError)
               \<and> now w' = now w"
    using poll_then_recv_eof[OF assms(1-3), of t s d] assms(4) by auto
qed

lemma Comm_send_live:
  assumes "\<not> closed (conns w k)" "os_error (conns w k) IoSend = None"
    "\<not> closed (conns w (peer (conns w k)))"
  shows "Comm_send k obj w =
     (Returns (), upd_conn (peer (conns w k))
         (\<lambda>p. p\<lparr>incoming := incoming p @ [(now w, obj)]\<rparr>) (called (OSend k obj) w))"
  using assms by (simp add: Comm_send_def conn_send_def Let_def)

lemma Comm_send_gone:
  assumes "\<not> closed (conns w k)" "os_error (conns w k) IoSend = None"
    "closed (conns w (peer (conns w k)))"
  shows "Comm_send k obj w =
     (Returns (), logger WARNING (BrokenPipeWhileSending obj) (called (OSend k obj) w))"
  using assms by (simp add: Comm_send_def conn_send_def Let_def)

lemma Comm_send_closed:
  "closed (conns w k) \<Longrightarrow> Comm_send k obj w = (Raises OSError, called (OSend k obj) w)"
  by (simp add: Comm_send_def conn_send_def Let_def)

section \<open>The claims about \<^verbatim>\<open>Comm\<close>\<close>

text \<open>
  Claim C9. \<^verbatim>\<open>Comm.send\<close> swallows \<^verbatim>\<open>BrokenPipeError\<close> and nothing else. On a
  \<^verbatim>\<open>Comm\<close> whose own connection is already closed, \<^verbatim>\<open>send\<close> raises the
  connection's \<^verbatim>\<open>OSError\<close> to the caller: besides the record of the call the world
  is unchanged, so nothing is queued anywhere and nothing is logged. In general
  \<^verbatim>\<open>send\<close> raises \<open>e\<close> exactly when the connection's send raises \<open>e\<close> and
  \<open>e\<close> is not \<^verbatim>\<open>BrokenPipeError\<close>; a \<^verbatim>\<open>BrokenPipeError\<close> becomes a normal
  return with one warning logged.
\<close>

theorem Comm_send_swallows_only_BrokenPipeError:
  "(closed (conns w k) \<longrightarrow> Comm_send k obj w = (Raises OSError, called (OSend k obj) w))
   \<and> (fst (Comm_send k obj w) = Raises e \<longleftrightarrow>
        fst (conn_send k obj w) = Raises e \<and> e \<noteq> BrokenPipeError)
   \<and> (fst (conn_send k obj w) = Raises BrokenPipeError \<longrightarrow>
        Comm_send k obj w =
          (Returns (), logger WARNING (BrokenPipeWhileSending obj) (snd (conn_send k obj w))))"
proof -
  obtain r w1 where s: "conn_send k obj w = (r, w1)" by fastforce
  have a: "closed (conns w k) \<Longrightarrow> conn_send k obj w = (Raises OSError, called (OSend k obj) w)"
    by (simp add: conn_send_def Let_def)
  have "closed (conns w k) \<longrightarrow> Comm_send k obj w = (Raises OSError, called (OSend k obj) w)"
    by (simp add: Comm_send_def a)
  moreover have "fst (Comm_send k obj w) = Raises e \<longleftrightarrow>
        fst (conn_send k obj w) = Raises e \<and> e \<noteq> BrokenPipeError"
    by (auto simp add: Comm_send_def s split: res.splits)
  moreover have "fst (conn_send k obj w) = Raises BrokenPipeError \<longrightarrow>
        Comm_send k obj w =
          (Returns (), logger WARNING (BrokenPipeWhileSending obj) (snd (conn_send k obj w)))"
    by (simp add: Comm_send_def s split: res.splits)
  ultimately show ?thesis by blast
qed

theorem Comm_send_swallows_only_BrokenPipeError_witness:
  "closed (conns (snd (Comm_close False 1 pipe0)) 1)
   \<and> Comm_send 1 (PInt 7) (snd (Comm_close False 1 pipe0)) =
       (Raises OSError, called (OSend 1 (PInt 7)) (snd (Comm_close False 1 pipe0)))
   \<and> logs (snd (Comm_send 1 (PInt 7) (snd (Comm_close False 1 pipe0)))) = []
   \<and> fst (conn_send 1 (PInt 7) peer_gone) = Raises BrokenPipeError
   \<and> Comm_send 1 (PInt 7) peer_gone =
       (Returns (), logger WARNING (BrokenPipeWhileSending (PInt 7))
          (snd (conn_send 1 (PInt 7) peer_gone)))"
  using Comm_send_swallows_only_BrokenPipeError[of "snd (Comm_close False 1 pipe0)" 1 "PInt 7" OSError]
    Comm_send_swallows_only_BrokenPipeError[of peer_gone 1 "PInt 7" OSError]
  by (simp add: eval_defs)

text \<open>
  Claim C6, as stated, says that every failure during \<^verbatim>\<open>Comm.close\<close> is caught and
  logged. It is not: when the other end is already closed, sending the CLOSE sentinel
  raises \<^verbatim>\<open>BrokenPipeError\<close>, the close returns normally, and the log is exactly what
  it was before.
\<close>

theorem Comm_close_counterexample:
  "fst (conn_send 1 CLOSE peer_gone) = Raises BrokenPipeError
   \<and> fst (Comm_close False 1 peer_gone) = Returns ()
   \<and> closed (conns (snd (Comm_close False 1 peer_gone)) 1)
   \<and> logs (snd (Comm_close False 1 peer_gone)) = logs peer_gone"
  by (simp add: eval_defs)

text \<open>
  Claim C6, amended. \<^verbatim>\<open>Comm.close\<close> never raises, whatever the connection does
  while the sentinel is sent, the acknowledgement is read and the handle is closed, and
  a close of a closed connection returns at once and leaves the world as it is. After
  a close that has returned the connection is closed, so any further close makes no
  call on the connection (no second CLOSE sentinel) and logs nothing. The failures are
  not all logged. The log of a close of an open connection that has returned is,
  with or without \<^verbatim>\<open>wait_for_ack\<close>, exactly this: an error for a failed send of the
  sentinel, unless the failure is \<^verbatim>\<open>BrokenPipeError\<close>, which leaves no record;
  with \<^verbatim>\<open>wait_for_ack\<close>, the debug record of the wait and then either the debug
  record of the acknowledgement or an error for the failed read, whatever the failure
  (the \<^verbatim>\<open>EOFError\<close> of a peer that is gone included); and an error for a failed
  close of the handle, unless the failure is an \<^verbatim>\<open>OSError\<close>, which leaves no
  record. With \<^verbatim>\<open>wait_for_ack\<close> the close does not return for as long as the read of
  the acknowledgement waits.
\<close>

theorem Comm_close_never_raises:
  "fst (Comm_close ack k w) \<noteq> Raises e
   \<and> (closed (conns w k) \<longrightarrow> Comm_close ack k w = (Returns (), w))
   \<and> (fst (Comm_close ack k w) = Returns () \<longrightarrow>
        closed (conns (snd (Comm_close ack k w)) k)
        \<and> Comm_close ack' k (snd (Comm_close ack k w)) = (Returns (), snd (Comm_close ack k w)))
   \<and> (\<not> closed (conns w k) \<and> fst (Comm_close ack k w) = Returns () \<longrightarrow>
        logs (snd (Comm_close ack k w)) = logs w @
          (case fst (conn_send k CLOSE w) of
             Raises x \<Rightarrow> if x = BrokenPipeError then [] else [(ERROR, ErrorSendingClose x)]
           | _ \<Rightarrow> []) @
          (if ack then
             (DEBUG, WaitingForAck) #
             (case fst (conn_recv k (snd (conn_send k CLOSE w))) of
                Returns x \<Rightarrow> [(DEBUG, ReceivedAck)]
              | Raises x \<Rightarrow> [(ERROR, ErrorWaitingForAck x)]
              | Blocks \<Rightarrow> [])
           else []) @
          (case os_error (conns w k) IoClose of
             Some x \<Rightarrow> if is_OSError x then [] else [(ERROR, ErrorClosingConnection x)]
           | None \<Rightarrow> []))
   \<and> (\<not> closed (conns w k) \<and> fst (conn_recv k (snd (conn_send k CLOSE w))) = Blocks \<longrightarrow>
        fst (Comm_close True k w) = Blocks)"
proof -
  have A: "fst (Comm_close ack k w) \<noteq> Raises e"
    by (rule Comm_close_no_raise)
  have B: "closed (conns w k) \<longrightarrow> Comm_close ack k w = (Returns (), w)"
    by (simp add: Comm_close_closed)
  have C: "fst (Comm_close ack k w) = Returns () \<longrightarrow>
        closed (conns (snd (Comm_close ack k w)) k)
        \<and> Comm_close ack' k (snd (Comm_close ack k w)) = (Returns (), snd (Comm_close ack k w))"
    using Comm_close_closes[of ack k w] Comm_close_closed by blast
  have D: "\<not> closed (conns w k) \<and> fst (Comm_close ack k w) = Returns () \<longrightarrow>
        logs (snd (Comm_close ack k w)) = logs w @
          (case fst (conn_send k CLOSE w) of
             Raises x \<Rightarrow> if x = BrokenPipeError then [] else [(ERROR, ErrorSendingClose x)]
           | _ \<Rightarrow> []) @
          (if ack then
             (DEBUG, WaitingForAck) #
             (case fst (conn_recv k (snd (conn_send k CLOSE w))) of
                Returns x \<Rightarrow> [(DEBUG, ReceivedAck)]
              | Raises x \<Rightarrow> [(ERROR, ErrorWaitingForAck x)]
              | Blocks \<Rightarrow> [])
           else []) @
          (case os_error (conns w k) IoClose of
             Some x \<Rightarrow> if is_OSError x then [] else [(ERROR, ErrorClosingConnection x)]
           | None \<Rightarrow> [])"
    using Comm_close_logs[of w k ack] by blast
  have E: "\<not> closed (conns w k) \<and> fst (conn_recv k (snd (conn_send k CLOSE w))) = Blocks \<longrightarrow>
        fst (Comm_close True k w) = Blocks"
    using Comm_close_waits[of w k] by blast
  from A B C D E show ?thesis by (intro conjI)
qed

theorem Comm_close_never_raises_witness:
  "\<not> closed (conns peer_gone 1)
   \<and> fst (Comm_close False 1 peer_gone) = Returns ()
   \<and> closed (conns (snd (Comm_close False 1 peer_gone)) 1)
   \<and> Comm_close True 1 (snd (Comm_close False 1 peer_gone)) =
       (Returns (), snd (Comm_close False 1 peer_gone))
   \<and> fst (conn_send 1 CLOSE peer_gone) = Raises BrokenPipeError
   \<and> logs (snd (Comm_close False 1 peer_gone)) = []
   \<and> \<not> closed (conns faulty 1)
   \<and> fst (Comm_close False 1 faulty) = Returns ()
   \<and> logs (snd (Comm_close False 1 faulty)) =
       [(ERROR, ErrorSendingClose RuntimeError), (ERROR, ErrorClosingConnection RuntimeError)]
   \<and> fst (Comm_close True 1 faulty) = Returns ()
   \<and> logs (snd (Comm_close True 1 faulty)) =
       [(ERROR, ErrorSendingClose RuntimeError), (DEBUG, WaitingForAck),
        (ERROR, ErrorWaitingForAck RuntimeError), (ERROR, ErrorClosingConnection RuntimeError)]
   \<and> \<not> closed (conns hung_up 1)
   \<and> fst (Comm_close True 1 hung_up) = Returns ()
   \<and> logs (snd (Comm_close True 1 hung_up)) =
       [(DEBUG, WaitingForAck), (ERROR, ErrorWaitingForAck EOFError)]
   \<and> fst (Comm_close True 1 peer_gone) = Returns ()
   \<and> logs (snd (Comm_close True 1 peer_gone)) = [(DEBUG, WaitingForAck), (DEBUG, ReceivedAck)]
   \<and> \<not> closed (conns pipe0 1)
   \<and> fst (conn_recv 1 (snd (conn_send 1 CLOSE pipe0))) = Blocks
   \<and> fst (Comm_close True 1 pipe0) = Blocks"
  using Comm_close_never_raises
      [where ack = False and k = 1 and w = peer_gone and e = OSError and ack' = True]
    Comm_close_never_raises
      [where ack = False and k = 1 and w = faulty and e = OSError and ack' = True]
    Comm_close_never_raises
      [where ack = True and k = 1 and w = faulty and e = OSError and ack' = True]
    Comm_close_never_raises
      [where ack = True and k = 1 and w = hung_up and e = OSError and ack' = True]
    Comm_close_never_raises
      [where ack = True and k = 1 and w = peer_gone and e = OSError and ack' = True]
    Comm_close_never_raises
      [where ack = True and k = 1 and w = pipe0 and e = OSError and ack' = True]
  by (simp add: eval_defs)

text \<open>
  Claim C3, as stated, says that \<^verbatim>\<open>Comm.request(msg, block=False, default=d)\<close>
  returns the queued message if there is one and \<open>d\<close> otherwise. It does not
  always return: when nothing is queued and the other end has been closed, the poll
  finds the handle readable and the read raises \<^verbatim>\<open>EOFError\<close>; and when the comm's
  own connection is closed the poll raises \<^verbatim>\<open>OSError\<close>.
\<close>

theorem Comm_request_nonblocking_counterexample:
  "\<not> closed (conns hung_up 1) \<and> incoming (conns hung_up 1) = []
   \<and> fst (Comm_request 1 PNone BlockFalse (PInt 0) hung_up) = Raises EOFError
   \<and> fst (Comm_request 1 PNone BlockFalse (PInt 0) (snd (Comm_close False 1 pipe0)))
       = Raises OSError"
  by (simp add: eval_defs)

text \<open>
  Claim C3, amended. \<^verbatim>\<open>Comm.request(msg, block=False, default=d)\<close> never blocks
  and never writes: in every state of the world the call comes back, the only calls it
  makes on connections are one \<^verbatim>\<open>poll()\<close> with timeout zero and at most one
  \<^verbatim>\<open>recv()\<close> on its own connection (no \<^verbatim>\<open>send\<close>, so no \<^verbatim>\<open>(REQUEST, msg)\<close>
  probe), every other connection is left as it was, and nothing is logged. On a closed
  connection it raises \<^verbatim>\<open>OSError\<close>. On an open connection on which the poll and
  the read meet no fault of the operating system: if a message has arrived the call
  returns the first one and removes it from the queue; if none has arrived and the
  other end is open (or a message is under way) it returns \<open>d\<close> and changes no
  connection; and if nothing is queued and the other end is closed it raises
  \<^verbatim>\<open>EOFError\<close>, or \<^verbatim>\<open>ConnectionResetError\<close> when a reset is pending.
\<close>

theorem Comm_request_nonblocking_only_polls:
  "case Comm_request k msg BlockFalse d w of (r, w') \<Rightarrow>
     r \<noteq> Blocks
     \<and> (ops w' = ops w @ [OPoll k (Some (Finite 0))]
         \<or> ops w' = ops w @ [OPoll k (Some (Finite 0)), ORecv k])
     \<and> (\<forall>j. j \<noteq> k \<longrightarrow> conns w' j = conns w j)
     \<and> logs w' = logs w
     \<and> (closed (conns w k) \<longrightarrow> r = Raises OSError)
     \<and> (\<not> closed (conns w k) \<and> os_error (conns w k) IoPoll = None
          \<and> os_error (conns w k) IoRecv = None \<longrightarrow>
         (\<forall>a m rest. incoming (conns w k) = (a, m) # rest \<and> a \<le> now w \<longrightarrow>
              r = Returns m \<and> incoming (conns w' k) = rest)
         \<and> ((incoming (conns w k) = [] \<and> \<not> closed (conns w (peer (conns w k))))
             \<or> (\<exists>a m rest. incoming (conns w k) = (a, m) # rest \<and> now w < a) \<longrightarrow>
              r = Returns d \<and> conns w' = conns w)
         \<and> (incoming (conns w k) = [] \<and> closed (conns w (peer (conns w k))) \<longrightarrow>
              r = Raises (if reset_pending (conns w k) then ConnectionResetError
                          else EOFError)))"
proof -
  obtain r w' where s: "poll_then_recv k (Some (Finite 0)) d w = (r, w')" by fastforce
  note sh = poll_then_recv_shape[OF s]
  have z: "select_timeout (Finite 0) = Inr 0" by simp
  have c: "closed (conns w k) \<longrightarrow> r = Raises OSError"
    using s poll_then_recv_closed[of w k "Some (Finite 0)" d] by auto
  have v: "(\<forall>a m rest. incoming (conns w k) = (a, m) # rest \<and> a \<le> now w \<longrightarrow>
            r = Returns m \<and> incoming (conns w' k) = rest)
       \<and> ((incoming (conns w k) = [] \<and> \<not> closed (conns w (peer (conns w k))))
           \<or> (\<exists>a m rest. incoming (conns w k) = (a, m) # rest \<and> now w < a) \<longrightarrow>
            r = Returns d \<and> conns w' = conns w)
       \<and> (incoming (conns w k) = [] \<and> closed (conns w (peer (conns w k))) \<longrightarrow>
            r = Raises (if reset_pending (conns w k) then ConnectionResetError else EOFError))"
    if live: "\<not> closed (conns w k)" "os_error (conns w k) IoPoll = None"
      "os_error (conns w k) IoRecv = None"
  proof -
    note sp = poll_then_recv_spec[OF live s]
    have "\<forall>a m rest. incoming (conns w k) = (a, m) # rest \<and> a \<le> now w \<longrightarrow>
            r = Returns m \<and> incoming (conns w' k) = rest"
      using sp(2)[OF z] by auto
    moreover have "(incoming (conns w k) = [] \<and> \<not> closed (conns w (peer (conns w k))))
           \<or> (\<exists>a m rest. incoming (conns w k) = (a, m) # rest \<and> now w < a) \<longrightarrow>
            r = Returns d \<and> conns w' = conns w"
      using sp(3)[OF z] sp(4)[OF z] by auto
    moreover have "incoming (conns w k) = [] \<and> closed (conns w (peer (conns w k))) \<longrightarrow>
            r = Raises (if reset_pending (conns w k) then ConnectionResetError else EOFError)"
      using sp(5)[OF z] by auto
    ultimately show ?thesis by (intro conjI)
  qed
  show ?thesis using sh c v by (simp add: Comm_request_def s; blast)
qed

theorem Comm_request_nonblocking_only_polls_witness:
  "\<not> closed (conns pipe0 1) \<and> incoming (conns pipe0 1) = []
   \<and> \<not> closed (conns pipe0 (peer (conns pipe0 1)))
   \<and> fst (Comm_request 1 (PStr ''state?'') BlockFalse (PInt 0) pipe0) = Returns (PInt 0)
   \<and> ops (snd (Comm_request 1 (PStr ''state?'') BlockFalse (PInt 0) pipe0))
       = [OPoll 1 (Some (Finite 0))]
   \<and> incoming (conns (snd (Comm_send 1 (PInt 5) pipe0)) 0) = [(0, PInt 5)]
   \<and> fst (Comm_request 0 PNone BlockFalse (PInt 0) (snd (Comm_send 1 (PInt 5) pipe0)))
       = Returns (PInt 5)
   \<and> incoming (conns (snd (Comm_request 0 PNone BlockFalse (PInt 0)
         (snd (Comm_send 1 (PInt 5) pipe0)))) 0) = []
   \<and> incoming (conns late_reply 1) = [(3, PInt 9)] \<and> now late_reply < 3
   \<and> fst (Comm_request 1 PNone BlockFalse (PInt 0) late_reply) = Returns (PInt 0)
   \<and> incoming (conns hung_up 1) = [] \<and> closed (conns hung_up (peer (conns hung_up 1)))
   \<and> \<not> reset_pending (conns hung_up 1)
   \<and> fst (Comm_request 1 PNone BlockFalse (PInt 0) hung_up) = Raises EOFError
   \<and> incoming (conns dropped 0) = [] \<and> closed (conns dropped (peer (conns dropped 0)))
   \<and> reset_pending (conns dropped 0)
   \<and> fst (Comm_request 0 PNone BlockFalse (PInt 0) dropped) = Raises ConnectionResetError
   \<and> closed (conns hung_up 0)
   \<and> fst (Comm_request 0 PNone BlockFalse (PInt 0) hung_up) = Raises OSError"
  using Comm_request_nonblocking_only_polls
      [where k = 1 and msg = "PStr ''state?''" and d = "PInt 0" and w = pipe0]
    Comm_request_nonblocking_only_polls
      [where k = 1 and msg = PNone and d = "PInt 0" and w = late_reply]
    Comm_request_nonblocking_only_polls
      [where k = 0 and msg = PNone and d = "PInt 0" and w = "snd (Comm_send 1 (PInt 5) pipe0)"]
    Comm_request_nonblocking_only_polls
      [where k = 1 and msg = PNone and d = "PInt 0" and w = hung_up]
    Comm_request_nonblocking_only_polls
      [where k = 0 and msg = PNone and d = "PInt 0" and w = dropped]
    Comm_request_nonblocking_only_polls
      [where k = 0 and msg = PNone and d = "PInt 0" and w = hung_up]
  by (simp add: eval_defs)

text \<open>
  Claim C4, as stated, says that \<^verbatim>\<open>Comm.request(msg, block=t, default=d)\<close> with a
  number \<open>t\<close> sends the probe and then returns the reply or \<open>d\<close>. Not for
  every call. When the other end has been closed the probe is dropped with a warning,
  nothing reaches the other end, and the call raises \<^verbatim>\<open>EOFError\<close> instead of
  returning \<open>d\<close>; if that end had queued something before it was closed, its CLOSE
  sentinel for instance, the call returns that as the reply. A timeout above
  2147483.647 seconds makes the poll raise \<^verbatim>\<open>OverflowError\<close> and a NaN makes it raise
  \<^verbatim>\<open>ValueError\<close>, after the probe has been sent. On a closed connection the send
  raises \<^verbatim>\<open>OSError\<close>.
\<close>

theorem Comm_request_timeout_counterexample:
  "closed (conns hung_up 0)
   \<and> fst (Comm_request 1 (PStr ''q'') (BlockFor (Finite 2)) (PInt 0) hung_up) = Raises EOFError
   \<and> incoming (conns (snd (Comm_request 1 (PStr ''q'') (BlockFor (Finite 2)) (PInt 0) hung_up)) 0)
       = []
   \<and> logs (snd (Comm_request 1 (PStr ''q'') (BlockFor (Finite 2)) (PInt 0) hung_up))
       = [(WARNING, BrokenPipeWhileSending (PTuple [REQUEST, PStr ''q'']))]
   \<and> fst (Comm_request 1 (PStr ''q'') (BlockFor (Finite 2)) (PInt 0) peer_gone) = Returns CLOSE
   \<and> fst (Comm_request 1 (PStr ''q'') (BlockFor (Finite 2147484)) (PInt 0) pipe0)
       = Raises OverflowError
   \<and> incoming (conns (snd (Comm_request 1 (PStr ''q'') (BlockFor (Finite 2147484)) (PInt 0)
         pipe0)) 0) = [(0, PTuple [REQUEST, PStr ''q''])]
   \<and> fst (Comm_request 1 (PStr ''q'') (BlockFor NaN) (PInt 0) pipe0) = Raises ValueError
   \<and> fst (Comm_request 1 (PStr ''q'') (BlockFor (Finite 2)) (PInt 0)
            (snd (Comm_close False 1 pipe0))) = Raises OSError"
  by (simp add: eval_defs)

text \<open>
  Claim C4, amended. \<^verbatim>\<open>Comm.request(msg, block=t, default=d)\<close> with a number
  \<open>t\<close> first sends the 2-tuple \<^verbatim>\<open>(REQUEST, msg)\<close>. On a closed connection that
  send raises \<^verbatim>\<open>OSError\<close> and nothing else happens. On an open connection on which
  the operating system reports no fault of its own, once the send has returned: the
  probe is queued at the other end if that end is open, and is dropped with a warning in
  the log if it is closed; then the call polls its own connection with timeout \<open>t\<close> and reads at
  most once, logs nothing more and touches no other connection. If \<open>t\<close> is not
  usable as a timeout (above 2147483.647 seconds, infinite, or not a number) the poll
  raises and the call with it. Otherwise, with \<open>s\<close> the time the poll waits at
  most (\<open>t\<close>, or zero for a \<open>t\<close> that is not positive), the call comes back no
  later than \<open>s\<close> seconds after the send has returned: if the next message arrives
  within \<open>s\<close> seconds the call reads and returns it; if no message arrives within
  \<open>s\<close> seconds and the other end is open, it returns \<open>d\<close> after \<open>s\<close>
  seconds and reads nothing; and if nothing is queued and the other end is closed it
  raises \<^verbatim>\<open>EOFError\<close>, or \<^verbatim>\<open>ConnectionResetError\<close> when a reset is pending.
\<close>

theorem Comm_request_timeout:
  "(closed (conns w k) \<longrightarrow>
      Comm_request k msg (BlockFor t) d w =
        (Raises OSError, called (OSend k (PTuple [REQUEST, msg])) w))
   \<and> (\<not> closed (conns w k) \<and> peer (conns w k) \<noteq> k
       \<and> os_error (conns w k) IoSend = None \<and> os_error (conns w k) IoPoll = None
       \<and> os_error (conns w k) IoRecv = None
       \<and> Comm_send k (PTuple [REQUEST, msg]) w = (Returns (), w1)
       \<and> Comm_request k msg (BlockFor t) d w = (r, w') \<longrightarrow>
        ops w1 = ops w @ [OSend k (PTuple [REQUEST, msg])]
        \<and> (if closed (conns w (peer (conns w k)))
            then conns w1 = conns w
                 \<and> logs w1 = logs w @ [(WARNING, BrokenPipeWhileSending (PTuple [REQUEST, msg]))]
            else incoming (conns w1 (peer (conns w k))) =
                   incoming (conns w (peer (conns w k))) @ [(now w, PTuple [REQUEST, msg])]
                 \<and> logs w1 = logs w)
        \<and> (ops w' = ops w1 @ [OPoll k (Some t)] \<or> ops w' = ops w1 @ [OPoll k (Some t), ORecv k])
        \<and> logs w' = logs w1
        \<and> (\<forall>j. j \<noteq> k \<longrightarrow> conns w' j = conns w1 j)
        \<and> (\<forall>x. select_timeout t = Inl x \<longrightarrow>
              r = Raises x \<and> w' = called (OPoll k (Some t)) w1)
        \<and> (\<forall>s. select_timeout t = Inr s \<longrightarrow>
              now w' \<le> now w1 + s
              \<and> (\<forall>a m rest. incoming (conns w k) = (a, m) # rest \<and> a \<le> now w1 + s \<longrightarrow>
                    r = Returns m \<and> incoming (conns w' k) = rest)
              \<and> ((incoming (conns w k) = [] \<and> \<not> closed (conns w (peer (conns w k))))
                  \<or> (\<exists>a m rest. incoming (conns w k) = (a, m) # rest \<and> now w1 + s < a) \<longrightarrow>
                    r = Returns d \<and> now w' = now w1 + s \<and> conns w' = conns w1)
              \<and> (incoming (conns w k) = [] \<and> closed (conns w (peer (conns w k))) \<longrightarrow>
                    r = Raises (if reset_pending (conns w k) then ConnectionResetError
                                else EOFError))))"
  (is "?A \<and> (?H \<longrightarrow> ?C)")
proof (rule conjI)
  show ?A by (simp add: Comm_request_def Comm_send_closed)
next
  show "?H \<longrightarrow> ?C"
  proof
  assume h: ?H
  then have live: "\<not> closed (conns w k)" "peer (conns w k) \<noteq> k"
    "os_error (conns w k) IoSend = None" "os_error (conns w k) IoPoll = None"
    "os_error (conns w k) IoRecv = None"
    and snd: "Comm_send k (PTuple [REQUEST, msg]) w = (Returns (), w1)"
    and req: "Comm_request k msg (BlockFor t) d w = (r, w')"
    by simp_all
  define p where "p = peer (conns w k)"
  have pk: "p \<noteq> k" using live(2) by (simp add: p_def)
  have w1: "w1 = (if closed (conns w p)
      then logger WARNING (BrokenPipeWhileSending (PTuple [REQUEST, msg]))
             (called (OSend k (PTuple [REQUEST, msg])) w)
      else upd_conn p (\<lambda>c. c\<lparr>incoming := incoming c @ [(now w, PTuple [REQUEST, msg])]\<rparr>)
             (called (OSend k (PTuple [REQUEST, msg])) w))"
    using snd Comm_send_live[OF live(1,3), of "PTuple [REQUEST, msg]"]
      Comm_send_gone[OF live(1,3), of "PTuple [REQUEST, msg]"]
    by (auto simp: p_def)
  have k1: "conns w1 k = conns w k" "now w1 = now w"
    "ops w1 = ops w @ [OSend k (PTuple [REQUEST, msg])]"
    "closed (conns w1 p) = closed (conns w p)"
    using pk by (simp_all add: w1)
  have A: "if closed (conns w p)
            then conns w1 = conns w
                 \<and> logs w1 = logs w @ [(WARNING, BrokenPipeWhileSending (PTuple [REQUEST, msg]))]
            else incoming (conns w1 p) = incoming (conns w p) @ [(now w, PTuple [REQUEST, msg])]
                 \<and> logs w1 = logs w"
    by (simp add: w1)
  have s: "poll_then_recv k (Some t) d w1 = (r, w')"
    using req by (simp add: Comm_request_def snd)
  note sh = poll_then_recv_shape[OF s]
  have live1: "\<not> closed (conns w1 k)" "os_error (conns w1 k) IoPoll = None"
    "os_error (conns w1 k) IoRecv = None"
    using live k1(1) by simp_all
  note sp = poll_then_recv_spec[OF live1 s, unfolded k1(1)]
  have pc: "closed (conns w1 (peer (conns w k))) = closed (conns w (peer (conns w k)))"
    using k1(4) by (simp add: p_def)
  have B: "\<forall>x. select_timeout t = Inl x \<longrightarrow> r = Raises x \<and> w' = called (OPoll k (Some t)) w1"
    using sp(1) by blast
  have C: "now w' \<le> now w1 + s
              \<and> (\<forall>a m rest. incoming (conns w k) = (a, m) # rest \<and> a \<le> now w1 + s \<longrightarrow>
                    r = Returns m \<and> incoming (conns w' k) = rest)
              \<and> ((incoming (conns w k) = [] \<and> \<not> closed (conns w (peer (conns w k))))
                  \<or> (\<exists>a m rest. incoming (conns w k) = (a, m) # rest \<and> now w1 + s < a) \<longrightarrow>
                    r = Returns d \<and> now w' = now w1 + s \<and> conns w' = conns w1)
              \<and> (incoming (conns w k) = [] \<and> closed (conns w (peer (conns w k))) \<longrightarrow>
                    r = Raises (if reset_pending (conns w k) then ConnectionResetError
                                else EOFError))"
    if st: "select_timeout t = Inr s" for s
  proof -
    have s0: "0 \<le> s" by (rule select_timeout_nonneg[OF st])
    have rep: "incoming (conns w k) = (a, m) # rest \<Longrightarrow> a \<le> now w1 + s \<Longrightarrow>
        r = Returns m \<and> incoming (conns w' k) = rest \<and> now w' = max (now w1) a" for a m rest
      using sp(2)[OF st] by blast
    have late: "incoming (conns w k) = (a, m) # rest \<Longrightarrow> now w1 + s < a \<Longrightarrow>
        r = Returns d \<and> now w' = now w1 + s \<and> conns w' = conns w1" for a m rest
      using sp(3)[OF st] by blast
    have emp: "incoming (conns w k) = [] \<Longrightarrow> \<not> closed (conns w (peer (conns w k))) \<Longrightarrow>
        r = Returns d \<and> now w' = now w1 + s \<and> conns w' = conns w1"
      using sp(4)[OF st] pc by blast
    have eof: "incoming (conns w k) = [] \<Longrightarrow> closed (conns w (peer (conns w k))) \<Longrightarrow>
        r = Raises (if reset_pending (conns w k) then ConnectionResetError else EOFError)
        \<and> now w' = now w1"
      using sp(5)[OF st] pc by blast
    have dur: "now w' \<le> now w1 + s"
    proof (cases "incoming (conns w k)")
      case Nil
      then show ?thesis using emp eof s0 by (cases "closed (conns w (peer (conns w k)))") auto
    next
      case (Cons x rest)
      obtain a m where x: "x = (a, m)" by (cases x)
      show ?thesis
      proof (cases "a \<le> now w1 + s")
        case True
        then show ?thesis using rep[of a m rest] Cons x s0 by auto
      next
        case False
        then show ?thesis using late[of a m rest] Cons x by auto
      qed
    qed
    have "\<forall>a m rest. incoming (conns w k) = (a, m) # rest \<and> a \<le> now w1 + s \<longrightarrow>
                    r = Returns m \<and> incoming (conns w' k) = rest"
      using rep by blast
    moreover have "(incoming (conns w k) = [] \<and> \<not> closed (conns w (peer (conns w k))))
                  \<or> (\<exists>a m rest. incoming (conns w k) = (a, m) # rest \<and> now w1 + s < a) \<longrightarrow>
                    r = Returns d \<and> now w' = now w1 + s \<and> conns w' = conns w1"
      using late emp by blast
    moreover have "incoming (conns w k) = [] \<and> closed (conns w (peer (conns w k))) \<longrightarrow>
                    r = Raises (if reset_pending (conns w k) then ConnectionResetError
                                else EOFError)"
      using eof by blast
    ultimately show ?thesis using dur by (intro conjI)
  qed
  have C': "\<forall>s. select_timeout t = Inr s \<longrightarrow>
              now w' \<le> now w1 + s
              \<and> (\<forall>a m rest. incoming (conns w k) = (a, m) # rest \<and> a \<le> now w1 + s \<longrightarrow>
                    r = Returns m \<and> incoming (conns w' k) = rest)
              \<and> ((incoming (conns w k) = [] \<and> \<not> closed (conns w (peer (conns w k))))
                  \<or> (\<exists>a m rest. incoming (conns w k) = (a, m) # rest \<and> now w1 + s < a) \<longrightarrow>
                    r = Returns d \<and> now w' = now w1 + s \<and> conns w' = conns w1)
              \<and> (incoming (conns w k) = [] \<and> closed (conns w (peer (conns w k))) \<longrightarrow>
                    r = Raises (if reset_pending (conns w k) then ConnectionResetError
                                else EOFError))"
    using C by blast
  from k1(3) A[unfolded p_def] sh(2) sh(4) sh(3) B C'
  show ?C by (intro conjI)
  qed
qed

theorem Comm_request_timeout_witness:
  "\<not> closed (conns pipe0 1) \<and> peer (conns pipe0 1) \<noteq> 1
   \<and> os_error (conns pipe0 1) IoSend = None \<and> os_error (conns pipe0 1) IoPoll = None
   \<and> os_error (conns pipe0 1) IoRecv = None
   \<and> fst (Comm_send 1 (PTuple [REQUEST, PStr ''q'']) pipe0) = Returns ()
   \<and> select_timeout (Finite 2) = Inr 2
   \<and> incoming (conns pipe0 1) = [] \<and> \<not> closed (conns pipe0 (peer (conns pipe0 1)))
   \<and> fst (Comm_request 1 (PStr ''q'') (BlockFor (Finite 2)) (PInt 0) pipe0) = Returns (PInt 0)
   \<and> now (snd (Comm_request 1 (PStr ''q'') (BlockFor (Finite 2)) (PInt 0) pipe0)) = 2
   \<and> incoming (conns (snd (Comm_request 1 (PStr ''q'') (BlockFor (Finite 2)) (PInt 0) pipe0)) 0)
       = [(0, PTuple [REQUEST, PStr ''q''])]
   \<and> select_timeout (Finite 2147484) = Inl OverflowError
   \<and> fst (Comm_request 1 (PStr ''q'') (BlockFor (Finite 2147484)) (PInt 0) pipe0)
       = Raises OverflowError
   \<and> \<not> closed (conns late_reply 1) \<and> peer (conns late_reply 1) \<noteq> 1
   \<and> os_error (conns late_reply 1) IoSend = None \<and> os_error (conns late_reply 1) IoPoll = None
   \<and> os_error (conns late_reply 1) IoRecv = None
   \<and> fst (Comm_send 1 (PTuple [REQUEST, PStr ''q'']) late_reply) = Returns ()
   \<and> incoming (conns late_reply 1) = [(3, PInt 9)]
   \<and> select_timeout (Finite 4) = Inr 4
   \<and> fst (Comm_request 1 (PStr ''q'') (BlockFor (Finite 4)) (PInt 0) late_reply)
       = Returns (PInt 9)
   \<and> fst (Comm_request 1 (PStr ''q'') (BlockFor (Finite 2)) (PInt 0) late_reply)
       = Returns (PInt 0)
   \<and> \<not> closed (conns hung_up 1) \<and> peer (conns hung_up 1) \<noteq> 1
   \<and> os_error (conns hung_up 1) IoSend = None \<and> os_error (conns hung_up 1) IoPoll = None
   \<and> os_error (conns hung_up 1) IoRecv = None
   \<and> fst (Comm_send 1 (PTuple [REQUEST, PStr ''q'']) hung_up) = Returns ()
   \<and> incoming (conns hung_up 1) = [] \<and> closed (conns hung_up (peer (conns hung_up 1)))
   \<and> \<not> reset_pending (conns hung_up 1)
   \<and> fst (Comm_request 1 (PStr ''q'') (BlockFor (Finite 2)) (PInt 0) hung_up) = Raises EOFError
   \<and> logs (snd (Comm_send 1 (PTuple [REQUEST, PStr ''q'']) hung_up))
       = [(WARNING, BrokenPipeWhileSending (PTuple [REQUEST, PStr ''q'']))]
   \<and> closed (conns hung_up 0)
   \<and> fst (Comm_request 0 (PStr ''q'') (BlockFor (Finite 2)) (PInt 0) hung_up) = Raises OSError"
proof -
  let ?p = "PTuple [REQUEST, PStr ''q'']"
  have st: "select_timeout (Finite 2) = Inr 2" "select_timeout (Finite 4) = Inr 4"
    "select_timeout (Finite 2147484) = Inl OverflowError"
    by simp_all
  have a: "\<not> closed (conns pipe0 1)" "peer (conns pipe0 1) \<noteq> 1"
    "os_error (conns pipe0 1) IoSend = None" "os_error (conns pipe0 1) IoPoll = None"
    "os_error (conns pipe0 1) IoRecv = None"
    "Comm_send 1 ?p pipe0 = (Returns (), snd (Comm_send 1 ?p pipe0))"
    "incoming (conns pipe0 1) = []" "\<not> closed (conns pipe0 (peer (conns pipe0 1)))"
    "now (snd (Comm_send 1 ?p pipe0)) = 0" "incoming (conns pipe0 0) = []"
    "peer (conns pipe0 1) = 0" "now pipe0 = 0"
    by (simp_all add: eval_defs)
  have b: "\<not> closed (conns late_reply 1)" "peer (conns late_reply 1) \<noteq> 1"
    "os_error (conns late_reply 1) IoSend = None" "os_error (conns late_reply 1) IoPoll = None"
    "os_error (conns late_reply 1) IoRecv = None"
    "Comm_send 1 ?p late_reply = (Returns (), snd (Comm_send 1 ?p late_reply))"
    "incoming (conns late_reply 1) = [(3, PInt 9)]"
    "now (snd (Comm_send 1 ?p late_reply)) = 0"
    by (simp_all add: eval_defs)
  have c: "\<not> closed (conns hung_up 1)" "peer (conns hung_up 1) \<noteq> 1"
    "os_error (conns hung_up 1) IoSend = None" "os_error (conns hung_up 1) IoPoll = None"
    "os_error (conns hung_up 1) IoRecv = None"
    "Comm_send 1 ?p hung_up = (Returns (), snd (Comm_send 1 ?p hung_up))"
    "incoming (conns hung_up 1) = []" "closed (conns hung_up (peer (conns hung_up 1)))"
    "\<not> reset_pending (conns hung_up 1)" "closed (conns hung_up 0)" "logs hung_up = []"
    by (simp_all add: eval_defs)
  have sp: "Comm_request k m bl d w = (fst (Comm_request k m bl d w), snd (Comm_request k m bl d w))"
    for k m bl d w by simp
  note A2 = Comm_request_timeout
      [where k = 1 and msg = "PStr ''q''" and d = "PInt 0" and w = pipe0 and t = "Finite 2"
         and ?w1.0 = "snd (Comm_send 1 ?p pipe0)", THEN conjunct2, rule_format,
       OF conjI[OF a(1) conjI[OF a(2) conjI[OF a(3) conjI[OF a(4) conjI[OF a(5) conjI[OF a(6) sp]]]]]]]
  note AX = Comm_request_timeout
      [where k = 1 and msg = "PStr ''q''" and d = "PInt 0" and w = pipe0
         and t = "Finite 2147484"
         and ?w1.0 = "snd (Comm_send 1 ?p pipe0)", THEN conjunct2, rule_format,
       OF conjI[OF a(1) conjI[OF a(2) conjI[OF a(3) conjI[OF a(4) conjI[OF a(5) conjI[OF a(6) sp]]]]]]]
  note B4 = Comm_request_timeout
      [where k = 1 and msg = "PStr ''q''" and d = "PInt 0" and w = late_reply and t = "Finite 4"
         and ?w1.0 = "snd (Comm_send 1 ?p late_reply)", THEN conjunct2, rule_format,
       OF conjI[OF b(1) conjI[OF b(2) conjI[OF b(3) conjI[OF b(4) conjI[OF b(5) conjI[OF b(6) sp]]]]]]]
  note B2 = Comm_request_timeout
      [where k = 1 and msg = "PStr ''q''" and d = "PInt 0" and w = late_reply and t = "Finite 2"
         and ?w1.0 = "snd (Comm_send 1 ?p late_reply)", THEN conjunct2, rule_format,
       OF conjI[OF b(1) conjI[OF b(2) conjI[OF b(3) conjI[OF b(4) conjI[OF b(5) conjI[OF b(6) sp]]]]]]]
  note C2 = Comm_request_timeout
      [where k = 1 and msg = "PStr ''q''" and d = "PInt 0" and w = hung_up and t = "Finite 2"
         and ?w1.0 = "snd (Comm_send 1 ?p hung_up)", THEN conjunct2, rule_format,
       OF conjI[OF c(1) conjI[OF c(2) conjI[OF c(3) conjI[OF c(4) conjI[OF c(5) conjI[OF c(6) sp]]]]]]]
  note D2 = Comm_request_timeout
      [where k = 0 and msg = "PStr ''q''" and d = "PInt 0" and w = hung_up and t = "Finite 2",
       THEN conjunct1, rule_format, OF c(10)]
  have r1: "fst (Comm_request 1 (PStr ''q'') (BlockFor (Finite 2)) (PInt 0) pipe0) = Returns (PInt 0)"
    "now (snd (Comm_request 1 (PStr ''q'') (BlockFor (Finite 2)) (PInt 0) pipe0)) = 2"
    using A2 st(1) a(7,8,9) by auto
  have r2: "incoming (conns (snd (Comm_request 1 (PStr ''q'') (BlockFor (Finite 2)) (PInt 0) pipe0)) 0)
       = [(0, PTuple [REQUEST, PStr ''q''])]"
    using A2 a(8,10,11,12) by auto
  have r3: "fst (Comm_request 1 (PStr ''q'') (BlockFor (Finite 2147484)) (PInt 0) pipe0)
       = Raises OverflowError"
    using AX st(3) by auto
  have r4: "fst (Comm_request 1 (PStr ''q'') (BlockFor (Finite 4)) (PInt 0) late_reply)
       = Returns (PInt 9)"
    using B4 st(2) b(7,8) by auto
  have r5: "fst (Comm_request 1 (PStr ''q'') (BlockFor (Finite 2)) (PInt 0) late_reply)
       = Returns (PInt 0)"
    using B2 st(1) b(7,8) by auto
  have r6: "fst (Comm_request 1 (PStr ''q'') (BlockFor (Finite 2)) (PInt 0) hung_up) = Raises EOFError"
    "logs (snd (Comm_send 1 ?p hung_up))
       = [(WARNING, BrokenPipeWhileSending (PTuple [REQUEST, PStr ''q'']))]"
    using C2 st(1) c(7,8,9,11) by auto
  have r7: "fst (Comm_request 0 (PStr ''q'') (BlockFor (Finite 2)) (PInt 0) hung_up) = Raises OSError"
    using D2 by simp
  have s: "fst (Comm_send 1 ?p pipe0) = Returns ()"
    "fst (Comm_send 1 ?p late_reply) = Returns ()"
    "fst (Comm_send 1 ?p hung_up) = Returns ()"
    by (simp_all add: eval_defs)
  show ?thesis
    using st a(1-5,7,8) b(1-5,7) c(1-5,7-10) s r1 r2 r3 r4 r5 r6 r7 by simp
qed

section \<open>Facts about \<^verbatim>\<open>AsyncComm.request\<close>\<close>

lemmas relay_eval = relay_loop.simps AsyncComm_request_def wait_for_def AsyncConnection_recv_def
  is_request_def real_data_def emit_def new_events_def close_comms_def
  CommTask_communicate_def CommTask_call_def Task_call_def SUBMITTED_def
  torn_down_def closed_cleanly_def close_requested_def task1_def

lemma async_recv_msg:
  assumes "\<not> closed (conns w c)" "os_error (conns w c) IoRecv = None"
    "incoming (conns w c) = (a, m) # rest"
  shows "AsyncConnection_recv c w =
     Some (max (now w) a - now w, Returns m,
           upd_conn c (\<lambda>p. p\<lparr>incoming := rest\<rparr>) ((called (ORecv c) w)\<lparr>now := max (now w) a\<rparr>))"
  using assms by (simp add: AsyncConnection_recv_def conn_recv_def Let_def)

lemma async_recv_never:
  assumes "\<not> closed (conns w c)" "os_error (conns w c) IoRecv = None"
    "incoming (conns w c) = []" "\<not> closed (conns w (peer (conns w c)))"
  shows "AsyncConnection_recv c w = None"
  using assms by (simp add: AsyncConnection_recv_def conn_recv_def Let_def)




lemma request_never:
  assumes "\<not> closed (conns w c)" "os_error (conns w c) IoRecv = None"
    "incoming (conns w c) = []" "\<not> closed (conns w (peer (conns w c)))"
  shows "AsyncComm_request c None d w = (Blocks, w)"
  by (simp add: AsyncComm_request_def wait_for_def async_recv_never[OF assms])



lemma request_frame:
  assumes "AsyncComm_request c None PNone w = (r, w')"
  shows "\<forall>j. j \<noteq> c \<longrightarrow> conns w' j = conns w j"
    and "closed (conns w' c) = closed (conns w c)"
    and "os_error (conns w' c) = os_error (conns w c)"
    and "peer (conns w' c) = peer (conns w c)"
    and "r \<noteq> Blocks \<longrightarrow> ops w' = ops w @ [ORecv c]"
    and "r = Blocks \<longrightarrow> w' = w"
    and "(\<exists>d. r = Returns d) \<or> r = Raises EOFError \<longrightarrow> \<not> closed (conns w c)"
proof -
  obtain v w1 where q: "conn_recv c w = (v, w1)" by fastforce
  note qf = conn_recv_frame[OF q]
  have cl: "closed (conns w c) \<Longrightarrow> v = Raises OSError"
    using q by (simp add: conn_recv_def Let_def)
  have eq: "(r, w') = (case v of Blocks \<Rightarrow> (Blocks, w) | Returns x \<Rightarrow> (Returns x, w1)
                       | Raises e \<Rightarrow> (Raises e, w1))"
  proof -
    have "AsyncComm_request c None PNone w =
        (case v of Blocks \<Rightarrow> (Blocks, w) | Returns x \<Rightarrow> (Returns x, w1)
                       | Raises e \<Rightarrow> (Raises e, w1))"
      by (cases v) (simp_all add: AsyncComm_request_def wait_for_def AsyncConnection_recv_def q)
    then show ?thesis using assms by simp
  qed
  show "\<forall>j. j \<noteq> c \<longrightarrow> conns w' j = conns w j" using eq qf by (cases v) auto
  show "closed (conns w' c) = closed (conns w c)" using eq qf by (cases v) auto
  show "os_error (conns w' c) = os_error (conns w c)" using eq qf by (cases v) auto
  show "peer (conns w' c) = peer (conns w c)" using eq qf by (cases v) auto
  show "r \<noteq> Blocks \<longrightarrow> ops w' = ops w @ [ORecv c]" using eq qf by (cases v) auto
  show "r = Blocks \<longrightarrow> w' = w" using eq by (cases v) auto
  show "(\<exists>d. r = Returns d) \<or> r = Raises EOFError \<longrightarrow> \<not> closed (conns w c)"
    using eq cl by (cases v) auto
qed

lemma request_decreases:
  assumes "AsyncComm_request c None PNone w = (Returns d, w')"
  shows "length (incoming (conns w' c)) < length (incoming (conns w c))"
  using assms
  by (auto simp: AsyncComm_request_def wait_for_def AsyncConnection_recv_def conn_recv_def
      Let_def split: option.splits res.splits prod.splits if_splits list.splits)

section \<open>Facts about the relay loop\<close>



lemma event_distinct [simp]:
  "REQUEST \<noteq> CLOSE" "MESSAGE \<noteq> CLOSE" "CLOSE \<noteq> REQUEST" "CLOSE \<noteq> MESSAGE"
  by (simp_all add: REQUEST_def CLOSE_def MESSAGE_def)

lemma emit_sel [simp]:
  "emitted (emit ev p T) = emitted T @ [(ev, p)]" "name (emit ev p T) = name T"
  "worker_comms (emit ev p T) = worker_comms T"
  "communication_tasks (emit ev p T) = communication_tasks T"
  "n_called (emit ev p T) = n_called T" "call_limit (emit ev p T) = call_limit T"
  "next_future (emit ev p T) = next_future T" "dispatched (emit ev p T) = dispatched T"
  by (simp_all add: emit_def)

lemma close_free_simps [simp]:
  "close_free []" "close_free (e # es) = (fst e \<noteq> CLOSE \<and> close_free es)"
  "close_free (es @ fs) = (close_free es \<and> close_free fs)"
  by (auto simp: close_free_def)

lemma close_free_filter: "close_free es \<Longrightarrow> filter (\<lambda>e. fst e = CLOSE) es = []"
  by (induction es) auto

text \<open>
  Induction along the loop: every iteration that goes round again has read a message,
  so the queue of the relay's connection is shorter.
\<close>

lemma relay_induct:
  assumes step: "\<And>T w. (\<And>d w1 T2. AsyncComm_request c None PNone w = (Returns d, w1) \<Longrightarrow>
                     P T2 (logger DEBUG (RelayReceived d) w1)) \<Longrightarrow> P T w"
  shows "P T w"
proof (induction "length (incoming (conns w c))" arbitrary: T w rule: less_induct)
  case less
  show ?case
  proof (rule step)
    fix d w1 T2
    assume "AsyncComm_request c None PNone w = (Returns d, w1)"
    from request_decreases[OF this]
    have "length (incoming (conns (logger DEBUG (RelayReceived d) w1) c))
            < length (incoming (conns w c))" by simp
    then show "P T2 (logger DEBUG (RelayReceived d) w1)" by (rule less)
  qed
qed

lemma relay_unfold:
  "AsyncComm_request c None PNone w = (Returns d, w1) \<Longrightarrow> is_request d \<Longrightarrow>
     relay_loop fut c (T, w) = relay_loop fut c
       (emit REQUEST (MsgPayload \<lparr>task = name T, comm = c, future = fut, data = real_data d\<rparr>) T,
        logger DEBUG (RelayReceived d) w1)"
  "AsyncComm_request c None PNone w = (Returns d, w1) \<Longrightarrow> \<not> is_request d \<Longrightarrow> d = CLOSE \<Longrightarrow>
     relay_loop fut c (T, w) =
       (ExitClose, emit CLOSE NoPayload T, logger DEBUG (RelayReceived d) w1)"
  "AsyncComm_request c None PNone w = (Returns d, w1) \<Longrightarrow> \<not> is_request d \<Longrightarrow> d \<noteq> CLOSE \<Longrightarrow>
     relay_loop fut c (T, w) = relay_loop fut c
       (emit MESSAGE (MsgPayload \<lparr>task = name T, comm = c, future = fut, data = d\<rparr>) T,
        logger DEBUG (RelayReceived d) w1)"
  "AsyncComm_request c None PNone w = (Raises EOFError, w1) \<Longrightarrow>
     relay_loop fut c (T, w) = (ExitEOF, T, logger DEBUG RelayClosedConnection w1)"
  "AsyncComm_request c None PNone w = (Raises e, w1) \<Longrightarrow> e \<noteq> EOFError \<Longrightarrow>
     relay_loop fut c (T, w) = (Crashed e, T, w1)"
  "AsyncComm_request c None PNone w = (Blocks, w1) \<Longrightarrow>
     relay_loop fut c (T, w) = (Suspended, T, w1)"
  by (subst relay_loop.simps, simp add: Let_def)+

text \<open>The loop changes nothing but the emitted events and the relay's own queue.\<close>

lemma relay_loop_frame:
  "case relay_loop fut c (T, w) of (ex, T', w') \<Rightarrow>
     name T' = name T \<and> worker_comms T' = worker_comms T
     \<and> communication_tasks T' = communication_tasks T \<and> dispatched T' = dispatched T
     \<and> (\<forall>j. j \<noteq> c \<longrightarrow> conns w' j = conns w j)
     \<and> closed (conns w' c) = closed (conns w c)
     \<and> (ex = ExitClose \<or> ex = ExitEOF \<longrightarrow> \<not> closed (conns w c))"
proof (induction T w rule: relay_induct[where c = c])
  case (1 T w)
  obtain r w1 where s: "AsyncComm_request c None PNone w = (r, w1)" by fastforce
  note fr = request_frame[OF s]
  show ?case
  proof (cases r)
    case (Returns d)
    note s' = s[unfolded Returns]
    have nc: "\<not> closed (conns w c)" using fr(7) Returns by simp
    show ?thesis
    proof (cases "is_request d")
      case True
      show ?thesis
        using 1[OF s', of "emit REQUEST (MsgPayload \<lparr>task = name T, comm = c, future = fut,
              data = real_data d\<rparr>) T"] fr(1,2) nc
        by (simp add: relay_unfold(1)[OF s' True] split: prod.splits)
    next
      case False
      show ?thesis
      proof (cases "d = CLOSE")
        case True
        show ?thesis using fr(1,2) nc
          by (simp add: relay_unfold(2)[OF s' False True])
      next
        case nocl: False
        show ?thesis
          using 1[OF s', of "emit MESSAGE (MsgPayload \<lparr>task = name T, comm = c, future = fut,
              data = d\<rparr>) T"] fr(1,2) nc
          by (simp add: relay_unfold(3)[OF s' False nocl] split: prod.splits)
      qed
    qed
  next
    case (Raises e)
    show ?thesis
    proof (cases "e = EOFError")
      case True
      show ?thesis using fr(1,2,7) Raises True
        by (simp add: relay_unfold(4)[OF s[unfolded Raises True]])
    next
      case False
      show ?thesis using fr(1,2)
        by (simp add: relay_unfold(5)[OF s[unfolded Raises] False])
    qed
  next
    case Blocks
    show ?thesis using fr(1,2)
      by (simp add: relay_unfold(6)[OF s[unfolded Blocks]])
  qed
qed

text \<open>CLOSE is emitted at most once, last, and exactly on the exit after a CLOSE message.\<close>

lemma relay_loop_events:
  "case relay_loop fut c (T, w) of (ex, T', w') \<Rightarrow>
     \<exists>new. emitted T' = emitted T @ new
       \<and> (ex \<noteq> ExitClose \<longrightarrow> close_free new)
       \<and> (ex = ExitClose \<longrightarrow> (\<exists>pre. new = pre @ [(CLOSE, NoPayload)] \<and> close_free pre))"
proof (induction T w rule: relay_induct[where c = c])
  case (1 T w)
  obtain r w1 where s: "AsyncComm_request c None PNone w = (r, w1)" by fastforce
  have again: "\<exists>new. emitted T' = emitted T @ new
       \<and> (ex \<noteq> ExitClose \<longrightarrow> close_free new)
       \<and> (ex = ExitClose \<longrightarrow> (\<exists>pre. new = pre @ [(CLOSE, NoPayload)] \<and> close_free pre))"
    if s': "AsyncComm_request c None PNone w = (Returns d, w1)"
      and r: "relay_loop fut c (emit ev p T, logger DEBUG (RelayReceived d) w1) = (ex, T', w')"
      and ev: "ev \<noteq> CLOSE"
    for d ev p ex T' w'
  proof -
    from 1[OF s', of "emit ev p T"] r
    obtain new where n: "emitted T' = (emitted T @ [(ev, p)]) @ new"
      "ex \<noteq> ExitClose \<longrightarrow> close_free new"
      "ex = ExitClose \<longrightarrow> (\<exists>pre. new = pre @ [(CLOSE, NoPayload)] \<and> close_free pre)"
      by auto
    have "emitted T' = emitted T @ ((ev, p) # new)" using n(1) by simp
    moreover have "ex \<noteq> ExitClose \<longrightarrow> close_free ((ev, p) # new)" using n(2) ev by simp
    moreover have "ex = ExitClose \<longrightarrow>
        (\<exists>pre. (ev, p) # new = pre @ [(CLOSE, NoPayload)] \<and> close_free pre)"
    proof
      assume "ex = ExitClose"
      then obtain pre where "new = pre @ [(CLOSE, NoPayload)]" "close_free pre"
        using n(3) by blast
      then have "(ev, p) # new = ((ev, p) # pre) @ [(CLOSE, NoPayload)]
          \<and> close_free ((ev, p) # pre)"
        using ev by simp
      then show "\<exists>pre. (ev, p) # new = pre @ [(CLOSE, NoPayload)] \<and> close_free pre" by blast
    qed
    ultimately show ?thesis by blast
  qed
  show ?case
  proof (cases r)
    case (Returns d)
    note s' = s[unfolded Returns]
    show ?thesis
    proof (cases "is_request d")
      case True
      obtain ex T' w' where r: "relay_loop fut c (emit REQUEST (MsgPayload
           \<lparr>task = name T, comm = c, future = fut, data = real_data d\<rparr>) T,
           logger DEBUG (RelayReceived d) w1) = (ex, T', w')" by (metis prod_cases3)
      show ?thesis using again[OF s' r] by (simp add: relay_unfold(1)[OF s' True] r)
    next
      case False
      show ?thesis
      proof (cases "d = CLOSE")
        case True
        show ?thesis by (simp add: relay_unfold(2)[OF s' False True])
      next
        case nocl: False
        obtain ex T' w' where r: "relay_loop fut c (emit MESSAGE (MsgPayload
             \<lparr>task = name T, comm = c, future = fut, data = d\<rparr>) T,
             logger DEBUG (RelayReceived d) w1) = (ex, T', w')" by (metis prod_cases3)
        show ?thesis using again[OF s' r] by (simp add: relay_unfold(3)[OF s' False nocl] r)
      qed
    qed
  next
    case (Raises e)
    show ?thesis
    proof (cases "e = EOFError")
      case True
      show ?thesis by (simp add: relay_unfold(4)[OF s[unfolded Raises True]])
    next
      case False
      show ?thesis by (simp add: relay_unfold(5)[OF s[unfolded Raises] False])
    qed
  next
    case Blocks
    show ?thesis by (simp add: relay_unfold(6)[OF s[unfolded Blocks]])
  qed
qed



section \<open>Facts about the end of \<^verbatim>\<open>_communicate\<close>\<close>

lemma send_close_signal_ops: "ops (send_close_signal k w) = ops w @ [OSend k CLOSE]"
proof -
  obtain r w1 where s: "conn_send k CLOSE w = (r, w1)" by fastforce
  from conn_send_frame[OF s] show ?thesis
    by (simp add: send_close_signal_def s split: res.splits)
qed

lemma close_connection_open:
  assumes "\<not> closed (conns w k)"
  shows "ops (close_connection k w) = ops w @ [OClose k]"
    and "\<forall>j. j \<noteq> k \<longrightarrow> closed (conns (close_connection k w) j) = closed (conns w j)"
proof -
  obtain r w1 where s: "conn_close k w = (r, w1)" by fastforce
  from conn_close_frame[OF s] show "ops (close_connection k w) = ops w @ [OClose k]"
    "\<forall>j. j \<noteq> k \<longrightarrow> closed (conns (close_connection k w) j) = closed (conns w j)"
    by (simp_all add: close_connection_def s split: res.splits)
qed

lemma Comm_close_open:
  assumes "\<not> closed (conns w k)"
  shows "fst (Comm_close False k w) = Returns ()"
    and "ops (snd (Comm_close False k w)) = ops w @ [OSend k CLOSE, OClose k]"
    and "closed (conns (snd (Comm_close False k w)) k)"
    and "\<forall>j. j \<noteq> k \<longrightarrow> closed (conns (snd (Comm_close False k w)) j) = closed (conns w j)"
proof -
  have e: "Comm_close False k w = (Returns (), close_connection k (send_close_signal k w))"
    using assms by (simp add: Comm_close_def Let_def)
  have o: "\<not> closed (conns (send_close_signal k w) k)"
    using assms by (simp add: send_close_signal_frame)
  show "fst (Comm_close False k w) = Returns ()" by (simp add: e)
  show "ops (snd (Comm_close False k w)) = ops w @ [OSend k CLOSE, OClose k]"
    by (simp add: e close_connection_open(1)[OF o] send_close_signal_ops)
  show "closed (conns (snd (Comm_close False k w)) k)"
    by (simp add: e close_connection_closes)
  show "\<forall>j. j \<noteq> k \<longrightarrow> closed (conns (snd (Comm_close False k w)) j) = closed (conns w j)"
    using close_connection_open(2)[OF o] by (simp add: e send_close_signal_frame)
qed

lemma close_comms_exit:
  assumes "\<not> closed (conns w c)" "worker_comms T fut = Some wc" "wc \<noteq> c"
  shows "case close_comms fut c (T, w) of (r, T', w') \<Rightarrow>
     r = Returns ()
     \<and> ops w' = ops w @ [OSend c CLOSE, OClose c]
                 @ (if closed (conns w wc) then [] else [OSend wc CLOSE, OClose wc])
     \<and> worker_comms T' = (worker_comms T)(fut := None)
     \<and> closed (conns w' c) \<and> closed (conns w' wc)"
proof -
  let ?w0 = "logger DEBUG RelayFinished w"
  obtain r1 w1 where c1: "Comm_close False c ?w0 = (r1, w1)" by fastforce
  have o0: "\<not> closed (conns ?w0 c)" using assms(1) by simp
  note f1 = Comm_close_open[OF o0, unfolded c1, simplified]
  have same: "closed (conns w1 wc) = closed (conns w wc)" using f1(4) assms(3) by simp
  show ?thesis
  proof (cases "closed (conns w wc)")
    case True
    then have c2: "Comm_close False wc w1 = (Returns (), w1)"
      using same by (simp add: Comm_close_closed)
    show ?thesis using f1 True same assms(2)
      by (simp add: close_comms_def c1 c2 Let_def)
  next
    case False
    then have o1: "\<not> closed (conns w1 wc)" using same by simp
    obtain r2 w2 where c2: "Comm_close False wc w1 = (r2, w2)" by fastforce
    note f2 = Comm_close_open[OF o1, unfolded c2, simplified]
    have cc: "closed (conns w2 c)" using f2(4) assms(3) f1(3) by simp
    show ?thesis
      using f1 f2 cc assms(2) False
      by (simp add: close_comms_def c1 c2 Let_def)
  qed
qed

section \<open>The claims about \<^verbatim>\<open>AsyncComm.request\<close>\<close>

text \<open>
  Claim C2 says that \<^verbatim>\<open>AsyncComm.request(timeout=t, default=d)\<close> returns \<open>d\<close>
  when no message arrives within the timeout, and does not raise. The code does raise:
  on an open connection that reads without a fault, if nothing is queued and the other
  end is open, or if the next message arrives only after the timeout, the call raises
  the \<^verbatim>\<open>TimeoutError\<close> of \<^verbatim>\<open>asyncio.wait_for\<close>, whatever \<open>d\<close> is, and the
  only change to the world is the time the timeout took.
\<close>

theorem AsyncComm_request_timeout_raises:
  assumes "\<not> closed (conns w k)" "os_error (conns w k) IoRecv = None"
    "(incoming (conns w k) = [] \<and> \<not> closed (conns w (peer (conns w k))))
     \<or> (\<exists>a m rest. incoming (conns w k) = (a, m) # rest \<and> now w + t \<le> a)"
  shows "AsyncComm_request k (Some t) d w = (Raises TimeoutError, w\<lparr>now := now w + max t 0\<rparr>)"
  using assms(3)
proof (elim disjE conjE exE)
  assume "incoming (conns w k) = []" "\<not> closed (conns w (peer (conns w k)))"
  then show ?thesis
    by (simp add: AsyncComm_request_def wait_for_def async_recv_never[OF assms(1,2)])
next
  fix a m rest
  assume i: "incoming (conns w k) = (a, m) # rest" and late: "now w + t \<le> a"
  then have "\<not> max (now w) a - now w < t" by (simp add: max_def)
  then show ?thesis
    by (simp add: AsyncComm_request_def wait_for_def async_recv_msg[OF assms(1,2) i])
qed

theorem AsyncComm_request_timeout_raises_witness:
  "\<not> closed (conns pipe0 0) \<and> os_error (conns pipe0 0) IoRecv = None
   \<and> incoming (conns pipe0 0) = [] \<and> \<not> closed (conns pipe0 (peer (conns pipe0 0)))
   \<and> fst (AsyncComm_request 0 (Some 1) (PStr ''nothing yet'') pipe0) = Raises TimeoutError
   \<and> \<not> closed (conns late_reply 1) \<and> os_error (conns late_reply 1) IoRecv = None
   \<and> incoming (conns late_reply 1) = [(3, PInt 9)] \<and> now late_reply + 1 \<le> 3
   \<and> fst (AsyncComm_request 1 (Some 1) (PStr ''nothing yet'') late_reply) = Raises TimeoutError"
  using AsyncComm_request_timeout_raises
      [where k = 0 and w = pipe0 and t = 1 and d = "PStr ''nothing yet''"]
    AsyncComm_request_timeout_raises
      [where k = 1 and w = late_reply and t = 1 and d = "PStr ''nothing yet''"]
  by (simp add: eval_defs)

text \<open>
  Claim C10, as stated, concludes that a peer that sends \<^verbatim>\<open>None\<close> cannot be told
  from the outcome of no message. It can: on a fresh pipe, a call without timeout
  returns \<open>d\<close> when the other end has sent \<^verbatim>\<open>None\<close>, and never returns when
  the other end has sent nothing.
\<close>

theorem AsyncComm_request_None_counterexample:
  "fst (AsyncComm_request 0 None (PStr ''default'') (send_all 1 [PNone] pipe0))
     = Returns (PStr ''default'')
   \<and> incoming (conns pipe0 0) = []
   \<and> AsyncComm_request 0 None (PStr ''default'') pipe0 = (Blocks, pipe0)"
  by (simp add: relay_eval eval_defs)

text \<open>
  Claim C10, amended. Whatever the timeout, none included: when the next message is
  \<^verbatim>\<open>None\<close> and it arrives before the timeout (if there is one) expires,
  \<^verbatim>\<open>AsyncComm.request(default=d)\<close> reads it and returns \<open>d\<close>, and the caller
  gets the same result and the same world as if the other end had sent \<open>d\<close>
  itself: that is what a peer that sends \<^verbatim>\<open>None\<close> cannot be told from. It can be
  told from no message: a call without timeout returns only a message that it has read
  (with \<^verbatim>\<open>None\<close> replaced by \<open>d\<close>), and while nothing is queued and the other
  end is open it stays suspended.
\<close>

theorem AsyncComm_request_None_becomes_default:
  "(\<not> closed (conns w k) \<and> os_error (conns w k) IoRecv = None
       \<and> incoming (conns w k) = (a, PNone) # rest
       \<and> (case timeout of None \<Rightarrow> True | Some t \<Rightarrow> max (now w) a - now w < t) \<longrightarrow>
      fst (AsyncComm_request k timeout d w) = Returns d
      \<and> incoming (conns (snd (AsyncComm_request k timeout d w)) k) = rest
      \<and> AsyncComm_request k timeout d w =
          AsyncComm_request k timeout d (upd_conn k (\<lambda>p. p\<lparr>incoming := (a, d) # rest\<rparr>) w))
   \<and> (\<not> closed (conns w k) \<and> os_error (conns w k) IoRecv = None
       \<and> incoming (conns w k) = [] \<and> \<not> closed (conns w (peer (conns w k))) \<longrightarrow>
      AsyncComm_request k None d w = (Blocks, w))
   \<and> (fst (AsyncComm_request k None d w) = Returns x \<longrightarrow>
      (\<exists>b m more. incoming (conns w k) = (b, m) # more
                   \<and> x = (if m = PNone then d else m)))"
proof -
  have B: "fst (AsyncComm_request k timeout d w) = Returns d
      \<and> incoming (conns (snd (AsyncComm_request k timeout d w)) k) = rest
      \<and> AsyncComm_request k timeout d w =
          AsyncComm_request k timeout d (upd_conn k (\<lambda>p. p\<lparr>incoming := (a, d) # rest\<rparr>) w)"
    if h: "\<not> closed (conns w k)" "os_error (conns w k) IoRecv = None"
      "incoming (conns w k) = (a, PNone) # rest"
      "case timeout of None \<Rightarrow> True | Some t \<Rightarrow> max (now w) a - now w < t"
  proof -
    let ?w' = "upd_conn k (\<lambda>p. p\<lparr>incoming := (a, d) # rest\<rparr>) w"
    have h': "\<not> closed (conns ?w' k)" "os_error (conns ?w' k) IoRecv = None"
      "incoming (conns ?w' k) = (a, d) # rest"
      using h by simp_all
    let ?W = "upd_conn k (\<lambda>p. p\<lparr>incoming := rest\<rparr>) ((called (ORecv k) w)\<lparr>now := max (now w) a\<rparr>)"
    have same: "upd_conn k (\<lambda>p. p\<lparr>incoming := rest\<rparr>)
          ((called (ORecv k) ?w')\<lparr>now := max (now ?w') a\<rparr>) = ?W"
      by (simp add: upd_conn_def called_def)
    have L: "AsyncConnection_recv k w = Some (max (now w) a - now w, Returns PNone, ?W)"
      by (rule async_recv_msg[OF h(1-3)])
    have R: "AsyncConnection_recv k ?w' = Some (max (now w) a - now w, Returns d, ?W)"
      using async_recv_msg[OF h'] same by simp
    have l: "AsyncComm_request k timeout d w = (Returns d, ?W)"
      using h(4) by (simp add: AsyncComm_request_def wait_for_def L split: option.splits)
    have r: "AsyncComm_request k timeout d ?w' = (Returns d, ?W)"
      using h(4) by (simp add: AsyncComm_request_def wait_for_def R split: option.splits)
    show ?thesis by (simp add: l r)
  qed
  have C: "AsyncComm_request k None d w = (Blocks, w)"
    if "\<not> closed (conns w k)" "os_error (conns w k) IoRecv = None"
      "incoming (conns w k) = []" "\<not> closed (conns w (peer (conns w k)))"
    using that by (rule request_never)
  have D: "\<exists>b m more. incoming (conns w k) = (b, m) # more \<and> x = (if m = PNone then d else m)"
    if r: "fst (AsyncComm_request k None d w) = Returns x"
  proof -
    obtain v w1 where q: "conn_recv k w = (v, w1)" by fastforce
    have "\<exists>y. v = Returns y \<and> x = (if y = PNone then d else y)"
      using r by (cases v) (simp_all add: AsyncComm_request_def wait_for_def
          AsyncConnection_recv_def q)
    then obtain y where y: "v = Returns y" "x = (if y = PNone then d else y)" by blast
    have "\<exists>b more. incoming (conns w k) = (b, y) # more"
      using q[unfolded y(1)]
      by (auto simp: conn_recv_def Let_def split: option.splits if_splits list.splits)
    then show ?thesis using y(2) by blast
  qed
  show ?thesis using B C D by blast
qed

theorem AsyncComm_request_None_becomes_default_witness:
  "\<not> closed (conns (send_all 1 [PNone] pipe0) 0)
   \<and> os_error (conns (send_all 1 [PNone] pipe0) 0) IoRecv = None
   \<and> incoming (conns (send_all 1 [PNone] pipe0) 0) = [(0, PNone)]
   \<and> fst (AsyncComm_request 0 None (PStr ''default'') (send_all 1 [PNone] pipe0))
       = Returns (PStr ''default'')
   \<and> fst (AsyncComm_request 0 (Some 5) (PStr ''default'') (send_all 1 [PNone] pipe0))
       = Returns (PStr ''default'')
   \<and> AsyncComm_request 0 None (PStr ''default'') (send_all 1 [PNone] pipe0)
       = AsyncComm_request 0 None (PStr ''default'')
           (upd_conn 0 (\<lambda>p. p\<lparr>incoming := [(0, PStr ''default'')]\<rparr>) (send_all 1 [PNone] pipe0))
   \<and> \<not> closed (conns pipe0 0) \<and> os_error (conns pipe0 0) IoRecv = None
   \<and> incoming (conns pipe0 0) = [] \<and> \<not> closed (conns pipe0 (peer (conns pipe0 0)))
   \<and> AsyncComm_request 0 None (PStr ''default'') pipe0 = (Blocks, pipe0)"
  using AsyncComm_request_None_becomes_default
      [where k = 0 and w = "send_all 1 [PNone] pipe0" and timeout = None
         and d = "PStr ''default''" and a = 0 and rest = "[]" and x = "PStr ''default''"]
    AsyncComm_request_None_becomes_default
      [where k = 0 and w = "send_all 1 [PNone] pipe0" and timeout = "Some 5"
         and d = "PStr ''default''" and a = 0 and rest = "[]" and x = "PStr ''default''"]
    AsyncComm_request_None_becomes_default
      [where k = 0 and w = pipe0 and timeout = None
         and d = "PStr ''default''" and a = 0 and rest = "[]" and x = "PStr ''default''"]
  by (simp add: relay_eval eval_defs)

section \<open>The claims about the relay\<close>






text \<open>
  Claim C7. When the relay's receive raises \<^verbatim>\<open>EOFError\<close> the loop ends there, with
  nothing emitted for it. Over a whole run of the loop, in any state of the world: a run
  that ends on \<^verbatim>\<open>EOFError\<close> has emitted no CLOSE event, and a run that ends on a
  CLOSE message has emitted exactly one CLOSE event, as its last event. So the two exits
  differ in what is emitted.
\<close>

theorem relay_loop_EOF_emits_no_CLOSE:
  "(AsyncComm_request c None PNone w = (Raises EOFError, w1) \<longrightarrow>
      relay_loop fut c (T, w) = (ExitEOF, T, logger DEBUG RelayClosedConnection w1))
   \<and> (case relay_loop fut c (T, w) of (ex, T', w') \<Rightarrow>
        emitted T' = emitted T @ new_events T T'
        \<and> (ex = ExitEOF \<longrightarrow> filter (\<lambda>e. fst e = CLOSE) (new_events T T') = [])
        \<and> (ex = ExitClose \<longrightarrow>
              filter (\<lambda>e. fst e = CLOSE) (new_events T T') = [(CLOSE, NoPayload)]
              \<and> last (new_events T T') = (CLOSE, NoPayload)))"
proof -
  obtain ex T' w' where r: "relay_loop fut c (T, w) = (ex, T', w')" by (metis prod_cases3)
  from relay_loop_events[where fut = fut and c = c and T = T and w = w] r
  obtain new where n: "emitted T' = emitted T @ new" "ex \<noteq> ExitClose \<longrightarrow> close_free new"
    "ex = ExitClose \<longrightarrow> (\<exists>pre. new = pre @ [(CLOSE, NoPayload)] \<and> close_free pre)"
    by auto
  have ne: "new_events T T' = new" by (simp add: new_events_def n(1))
  have A: "ex = ExitEOF \<longrightarrow> filter (\<lambda>e. fst e = CLOSE) new = []"
    using n(2) close_free_filter by auto
  have B: "ex = ExitClose \<longrightarrow>
              filter (\<lambda>e. fst e = CLOSE) new = [(CLOSE, NoPayload)]
              \<and> last new = (CLOSE, NoPayload)"
    using n(3) close_free_filter by auto
  have C: "AsyncComm_request c None PNone w = (Raises EOFError, w1) \<longrightarrow>
      relay_loop fut c (T, w) = (ExitEOF, T, logger DEBUG RelayClosedConnection w1)"
    using relay_unfold(4) by blast
  show ?thesis using A B C n(1) by (simp add: r ne)
qed

theorem relay_loop_EOF_emits_no_CLOSE_witness:
  "AsyncComm_request 0 None PNone (snd (conn_close 1 pipe0))
      = (Raises EOFError, called (ORecv 0) (snd (conn_close 1 pipe0)))
   \<and> fst (relay_loop 0 0 (task0, snd (conn_close 1 pipe0))) = ExitEOF
   \<and> fst (relay_loop 0 0 (task0, torn_down)) = ExitEOF
   \<and> new_events task0 (fst (snd (relay_loop 0 0 (task0, torn_down)))) =
       [(MESSAGE, MsgPayload \<lparr>task = ''calculate'', comm = 0, future = 0, data = PInt 10\<rparr>)]
   \<and> fst (relay_loop 0 0 (task0, closed_cleanly)) = ExitClose
   \<and> new_events task0 (fst (snd (relay_loop 0 0 (task0, closed_cleanly)))) =
       [(MESSAGE, MsgPayload \<lparr>task = ''calculate'', comm = 0, future = 0, data = PInt 10\<rparr>),
        (CLOSE, NoPayload)]"
  using relay_loop_EOF_emits_no_CLOSE
      [where c = 0 and fut = 0 and T = task0 and w = "snd (conn_close 1 pipe0)"
         and ?w1.0 = "called (ORecv 0) (snd (conn_close 1 pipe0))"]
    relay_loop_EOF_emits_no_CLOSE[where c = 0 and fut = 0 and T = task0 and w = torn_down]
    relay_loop_EOF_emits_no_CLOSE[where c = 0 and fut = 0 and T = task0 and w = closed_cleanly]
  by (simp add: relay_eval eval_defs)

text \<open>
  Claim C8. A call of the task that yields a future records the worker's comm, the one
  handed to the callable, under that future in \<^verbatim>\<open>worker_comms\<close>, open, before the
  relay runs. The relay loop, however it ends, leaves \<^verbatim>\<open>worker_comms\<close> and every
  connection but its own as they were, so the worker's comm stays referenced and is not
  closed by the relay while the loop runs. When the loop ends after CLOSE or after
  \<^verbatim>\<open>EOFError\<close>, the rest of \<^verbatim>\<open>_communicate\<close> returns normally and the calls it
  makes on connections are, in this order: send CLOSE on the relay's comm, close it (no
  read in between: no waiting for an acknowledgement), then, on the comm popped from
  \<^verbatim>\<open>worker_comms\<close>, send CLOSE and close, unless that comm is closed already; at the
  end the future is no longer in \<^verbatim>\<open>worker_comms\<close> and both comms are closed.
\<close>

theorem worker_comm_held_until_relay_exit:
  "(case CommTask_call (T, w) of (f, T', w') \<Rightarrow>
      f = Some fut \<longrightarrow>
        worker_comms T' fut = Some (Suc (next_conn w))
        \<and> communication_tasks T' fut = Some (fut, next_conn w)
        \<and> (fut, Suc (next_conn w)) \<in> set (dispatched T')
        \<and> \<not> closed (conns w' (Suc (next_conn w))) \<and> \<not> closed (conns w' (next_conn w))
        \<and> peer (conns w' (next_conn w)) = Suc (next_conn w))
   \<and> (case relay_loop fut sc (T, w) of (ex, T1, w1) \<Rightarrow>
        worker_comms T1 = worker_comms T
        \<and> (\<forall>j. j \<noteq> sc \<longrightarrow> conns w1 j = conns w j)
        \<and> (worker_comms T fut = Some wc \<and> wc \<noteq> sc \<and> (ex = ExitClose \<or> ex = ExitEOF) \<longrightarrow>
            CommTask_communicate fut sc (T, w) = close_comms fut sc (T1, w1)
            \<and> (case close_comms fut sc (T1, w1) of (r, T2, w2) \<Rightarrow>
                 r = Returns ()
                 \<and> ops w2 = ops w1 @ [OSend sc CLOSE, OClose sc]
                      @ (if closed (conns w wc) then [] else [OSend wc CLOSE, OClose wc])
                 \<and> worker_comms T2 = (worker_comms T)(fut := None)
                 \<and> closed (conns w2 sc) \<and> closed (conns w2 wc))))"
proof -
  have A: "case CommTask_call (T, w) of (f, T', w') \<Rightarrow>
      f = Some fut \<longrightarrow>
        worker_comms T' fut = Some (Suc (next_conn w))
        \<and> communication_tasks T' fut = Some (fut, next_conn w)
        \<and> (fut, Suc (next_conn w)) \<in> set (dispatched T')
        \<and> \<not> closed (conns w' (Suc (next_conn w))) \<and> \<not> closed (conns w' (next_conn w))
        \<and> peer (conns w' (next_conn w)) = Suc (next_conn w)"
    by (auto simp: CommTask_call_def Comm_create_def Task_call_def Let_def fresh_conn_def emit_def
        split: option.splits)
  obtain ex T1 w1 where r: "relay_loop fut sc (T, w) = (ex, T1, w1)" by (metis prod_cases3)
  note fr = relay_loop_frame[where fut = fut and c = sc and T = T and w = w,
      unfolded r, simplified]
  have B: "CommTask_communicate fut sc (T, w) = close_comms fut sc (T1, w1)
            \<and> (case close_comms fut sc (T1, w1) of (r, T2, w2) \<Rightarrow>
                 r = Returns ()
                 \<and> ops w2 = ops w1 @ [OSend sc CLOSE, OClose sc]
                      @ (if closed (conns w wc) then [] else [OSend wc CLOSE, OClose wc])
                 \<and> worker_comms T2 = (worker_comms T)(fut := None)
                 \<and> closed (conns w2 sc) \<and> closed (conns w2 wc))"
    if h: "worker_comms T fut = Some wc" "wc \<noteq> sc" "ex = ExitClose \<or> ex = ExitEOF"
  proof -
    have o: "\<not> closed (conns w1 sc)" using fr h(3) by auto
    have wk: "worker_comms T1 fut = Some wc" using fr h(1) by simp
    have ow: "closed (conns w1 wc) = closed (conns w wc)" using fr h(2) by simp
    have "CommTask_communicate fut sc (T, w) = close_comms fut sc (T1, w1)"
      using h(3) by (auto simp: CommTask_communicate_def r)
    moreover have "worker_comms T1 = worker_comms T" using fr by simp
    ultimately show ?thesis
      using close_comms_exit[OF o wk h(2)] ow by (simp split: prod.splits)
  qed
  show ?thesis using A B fr by (simp add: r)
qed

theorem worker_comm_held_until_relay_exit_witness:
  "CommTask_call (task0, world0) = (Some 0, task1, pipe0)
   \<and> worker_comms task1 0 = Some 1
   \<and> \<not> closed (conns close_requested 1)
   \<and> fst (relay_loop 0 0 (task1, close_requested)) = ExitClose
   \<and> worker_comms (fst (snd (relay_loop 0 0 (task1, close_requested)))) 0 = Some 1
   \<and> fst (CommTask_communicate 0 0 (task1, close_requested)) = Returns ()
   \<and> ops (snd (snd (CommTask_communicate 0 0 (task1, close_requested)))) =
       [OSend 1 (PInt 10), OSend 1 CLOSE, ORecv 0, ORecv 0,
        OSend 0 CLOSE, OClose 0, OSend 1 CLOSE, OClose 1]
   \<and> worker_comms (fst (snd (CommTask_communicate 0 0 (task1, close_requested)))) 0 = None
   \<and> fst (relay_loop 0 0 (task1, torn_down)) = ExitEOF
   \<and> ops (snd (snd (CommTask_communicate 0 0 (task1, torn_down)))) =
       [OSend 1 (PInt 10), OClose 1, ORecv 0, ORecv 0, OSend 0 CLOSE, OClose 0]
   \<and> worker_comms (fst (snd (CommTask_communicate 0 0 (task1, torn_down)))) 0 = None"
  using worker_comm_held_until_relay_exit
      [where T = task0 and w = world0 and fut = 0 and sc = 0 and wc = 1]
    worker_comm_held_until_relay_exit
      [where T = task1 and w = close_requested and fut = 0 and sc = 0 and wc = 1]
    worker_comm_held_until_relay_exit
      [where T = task1 and w = torn_down and fut = 0 and sc = 0 and wc = 1]
  by (simp add: relay_eval eval_defs)

end
